theory Spec2Isabelle
  imports Main "HOL-Library.AList"
begin

section \<open>Strings, integers and header names\<close>

text \<open>
  Go strings are byte sequences; \<^typ>\<open>string\<close> is a list of bytes, and the empty
  string is the empty list. The helpers of this section are the library routines that
  \<^verbatim>\<open>s3api/controllers/base.go\<close> calls: \<^verbatim>\<open>strings.Split\<close>, \<^verbatim>\<open>strings.Join\<close>,
  \<^verbatim>\<open>strconv.ParseInt(s, 10, 64)\<close>, \<^verbatim>\<open>strconv.Atoi\<close> and \<^verbatim>\<open>fmt.Sprint\<close> on an integer.
\<close>

text \<open>\<^verbatim>\<open>strings.Split(s, sep)\<close> for a one-byte separator: \<open>n\<close> separators give
  \<open>n + 1\<close> pieces, and the empty string gives one empty piece.\<close>

fun Split :: "string \<Rightarrow> char \<Rightarrow> string list" where
  "Split [] sep = [[]]"
| "Split (x # xs) sep =
     (if x = sep then [] # Split xs sep
      else (case Split xs sep of [] \<Rightarrow> [[x]] | p # ps \<Rightarrow> (x # p) # ps))"

text \<open>\<^verbatim>\<open>strings.Join(elems, sep)\<close>.\<close>

fun Join :: "string list \<Rightarrow> string \<Rightarrow> string" where
  "Join [] sep = []"
| "Join [x] sep = x"
| "Join (x # y # ys) sep = x @ sep @ Join (y # ys) sep"

definition is_digit :: "char \<Rightarrow> bool" where
  "is_digit c = (48 \<le> (of_char c :: nat) \<and> (of_char c :: nat) \<le> 57)"

definition digit_val :: "char \<Rightarrow> int" where
  "digit_val c = int (of_char c) - 48"

definition decimal :: "string \<Rightarrow> int" where
  "decimal ds = foldl (\<lambda>a c. 10 * a + digit_val c) 0 ds"

text \<open>
  \<^verbatim>\<open>strconv.ParseInt(s, 10, 64)\<close>: an optional sign, then one or more decimal digits and
  nothing else; the value must fit a signed 64-bit integer. \<open>None\<close> is the non-nil error
  (syntax or range).
\<close>

definition ParseInt :: "string \<Rightarrow> int option" where
  "ParseInt s =
     (let neg = (s \<noteq> [] \<and> hd s = CHR ''-'');
          ds = (if s \<noteq> [] \<and> (hd s = CHR ''+'' \<or> hd s = CHR ''-'') then tl s else s)
      in if ds = [] \<or> \<not> list_all is_digit ds then None
         else let n = decimal ds
              in if neg then (if n \<le> 2 ^ 63 then Some (- n) else None)
                 else (if n \<le> 2 ^ 63 - 1 then Some n else None))"

text \<open>\<^verbatim>\<open>strconv.Atoi(s)\<close> is \<^verbatim>\<open>ParseInt(s, 10, 0)\<close>; \<^verbatim>\<open>int\<close> has 64 bits on the
  platforms the gateway is built for.\<close>

definition Atoi :: "string \<Rightarrow> int option" where
  "Atoi s = ParseInt s"

definition digit_char :: "nat \<Rightarrow> char" where
  "digit_char d = ''0123456789'' ! d"

fun nat_digits :: "nat \<Rightarrow> string" where
  "nat_digits n =
     (if n < 10 then [digit_char n]
      else nat_digits (n div 10) @ [digit_char (n mod 10)])"

text \<open>\<^verbatim>\<open>fmt.Sprint\<close> of an integer.\<close>

definition Sprint :: "int \<Rightarrow> string" where
  "Sprint i = (if i < 0 then CHR ''-'' # nat_digits (nat (- i)) else nat_digits (nat i))"

text \<open>HTTP header names are matched without regard to the case of ASCII letters; an
  upper-case letter and its lower-case form differ in the bit of value 32.\<close>

definition to_lower :: "char \<Rightarrow> char" where
  "to_lower c =
     (if 65 \<le> (of_char c :: nat) \<and> (of_char c :: nat) \<le> 90
      then Char (digit0 c) (digit1 c) (digit2 c) (digit3 c) (digit4 c) True (digit6 c) (digit7 c)
      else c)"

definition lower :: "string \<Rightarrow> string" where
  "lower s = map to_lower s"

text \<open>The value of the first entry under a key, or the empty string.\<close>

definition lookup_default :: "(string \<times> string) list \<Rightarrow> string \<Rightarrow> string" where
  "lookup_default kvs k = (case map_of kvs k of None \<Rightarrow> [] | Some v \<Rightarrow> v)"


section \<open>Times\<close>

text \<open>
  A \<^verbatim>\<open>time.Time\<close>, as far as formatting to the second reads it: the instant in
  seconds since the Unix epoch, and the offset in seconds east of UTC that the time's
  location has at that instant. A time in the location UTC has the offset 0.
\<close>

record Time =
  sec :: int
  offset :: int

text \<open>The wall clock of a number of seconds since the epoch: the civil date of its
  day, the day of the week (0 is Sunday) and the time of day.\<close>

definition day_number :: "int \<Rightarrow> int" where
  "day_number w = w div 86400"

definition weekday :: "int \<Rightarrow> int" where
  "weekday w = (day_number w + 4) mod 7"

definition day_of_era :: "int \<Rightarrow> int" where
  "day_of_era w = (day_number w + 719468) mod 146097"

definition year_of_era :: "int \<Rightarrow> int" where
  "year_of_era w =
     (day_of_era w - day_of_era w div 1460 + day_of_era w div 36524
        - day_of_era w div 146096) div 365"

definition day_of_year :: "int \<Rightarrow> int" where
  "day_of_year w =
     day_of_era w - (365 * year_of_era w + year_of_era w div 4 - year_of_era w div 100)"

definition month_index :: "int \<Rightarrow> int" where
  "month_index w = (5 * day_of_year w + 2) div 153"

definition day :: "int \<Rightarrow> int" where
  "day w = day_of_year w - (153 * month_index w + 2) div 5 + 1"

definition month :: "int \<Rightarrow> int" where
  "month w = (if month_index w < 10 then month_index w + 3 else month_index w - 9)"

definition year :: "int \<Rightarrow> int" where
  "year w =
     year_of_era w + (day_number w + 719468) div 146097 * 400 + (if month w \<le> 2 then 1 else 0)"

definition hour :: "int \<Rightarrow> int" where
  "hour w = w mod 86400 div 3600"

definition minute :: "int \<Rightarrow> int" where
  "minute w = w mod 3600 div 60"

definition second :: "int \<Rightarrow> int" where
  "second w = w mod 60"

definition day_names :: "string list" where
  "day_names = [''Sun'', ''Mon'', ''Tue'', ''Wed'', ''Thu'', ''Fri'', ''Sat'']"

definition month_names :: "string list" where
  "month_names =
     [''Jan'', ''Feb'', ''Mar'', ''Apr'', ''May'', ''Jun'', ''Jul'', ''Aug'', ''Sep'', ''Oct'',
      ''Nov'', ''Dec'']"

text \<open>A number written with at least the given count of digits, zeros in front, as
  \<^verbatim>\<open>time.Format\<close> writes its numeric fields.\<close>

definition zero_pad :: "nat \<Rightarrow> int \<Rightarrow> string" where
  "zero_pad width n =
     (if n < 0 then ''-'' else [])
       @ replicate (width - length (nat_digits (nat \<bar>n\<bar>))) CHR ''0''
       @ nat_digits (nat \<bar>n\<bar>)"

text \<open>
  \<^verbatim>\<open>time.Time.Format(layout)\<close> for layouts made of the chunks \<^verbatim>\<open>Mon\<close>, \<^verbatim>\<open>Jan\<close>,
  \<^verbatim>\<open>2006\<close>, \<^verbatim>\<open>02\<close>, \<^verbatim>\<open>15\<close>, \<^verbatim>\<open>04\<close>, \<^verbatim>\<open>05\<close> and of text that holds no other chunk
  of Go's layouts: a chunk is replaced by the field of the wall clock in the time's own
  location, every other byte is copied. The second argument counts the bytes of a chunk
  that are still to be skipped.
\<close>

fun format_chunks :: "int \<Rightarrow> nat \<Rightarrow> string \<Rightarrow> string" where
  "format_chunks w k [] = []"
| "format_chunks w (Suc k) (c # cs) = format_chunks w k cs"
| "format_chunks w 0 (c # cs) =
     (if take 3 (c # cs) = ''Jan'' then month_names ! nat (month w - 1) @ format_chunks w 2 cs
      else if take 3 (c # cs) = ''Mon'' then day_names ! nat (weekday w) @ format_chunks w 2 cs
      else if take 4 (c # cs) = ''2006'' then zero_pad 4 (year w) @ format_chunks w 3 cs
      else if take 2 (c # cs) = ''02'' then zero_pad 2 (day w) @ format_chunks w 1 cs
      else if take 2 (c # cs) = ''15'' then zero_pad 2 (hour w) @ format_chunks w 1 cs
      else if take 2 (c # cs) = ''04'' then zero_pad 2 (minute w) @ format_chunks w 1 cs
      else if take 2 (c # cs) = ''05'' then zero_pad 2 (second w) @ format_chunks w 1 cs
      else c # format_chunks w 0 cs)"

definition Format :: "Time \<Rightarrow> string \<Rightarrow> string" where
  "Format t layout = format_chunks (sec t + offset t) 0 layout"

section \<open>Errors, responses and the backend\<close>

text \<open>The error codes of package \<^verbatim>\<open>s3err\<close> that the controller names, and the further
  entries that the catalog is required to hold.\<close>

datatype ErrorCode =
    ErrInvalidRequest | ErrInvalidMaxParts | ErrInvalidPartNumberMarker | ErrInvalidPart
  | ErrNoSuchBucket | ErrNoSuchKey | ErrBucketAlreadyExists | ErrAccessDenied
  | ErrInternalError

record APIError =
  Code :: string
  Description :: string
  HTTPStatusCode :: int

text \<open>A Go \<^verbatim>\<open>error\<close> value: the type assertion \<^verbatim>\<open>err.(s3err.APIError)\<close> succeeds on
  \<open>APIErr\<close> and fails on every other error, such as one made by \<^verbatim>\<open>errors.New\<close>.\<close>

datatype go_error = APIErr APIError | PlainErr string

text \<open>The response held by a \<^verbatim>\<open>fiber.Ctx\<close>. Header names are stored in lower case.\<close>

record response =
  status :: int
  header :: "(string \<times> string) list"
  rbody :: string

text \<open>The fields of \<^verbatim>\<open>s3.GetObjectOutput\<close> and \<^verbatim>\<open>s3.HeadObjectOutput\<close> that the
  controller reads; a nil pointer is \<open>None\<close>.\<close>

record ObjectOutput =
  Metadata :: "(string \<times> string) list"
  LastModified :: "Time option"
  ContentLength :: int
  ContentType :: "string option"
  ContentEncoding :: "string option"
  ETag :: "string option"

text \<open>
  The operations of \<^verbatim>\<open>backend.Backend\<close> that the handlers below call, with their
  arguments in the order of the call (for an input struct, the fields in the order the
  handler fills them). \<open>'x\<close> is a value decoded by \<^verbatim>\<open>xml.Unmarshal\<close>.
\<close>

datatype 'x call =
    be_ListObjectParts string string string int int
  | be_GetObjectAcl string string
  | be_GetObjectAttributes string string "string list"
  | be_GetObject string string string
  | be_PutBucketAcl string string string string string string string string
  | be_PutBucket string string
  | be_PutObjectPart string string string int int string
  | be_PutObjectAcl string string string string string string string string
  | be_CopyObject string string string string
  | be_PutObject string string int "(string \<times> string) list" string
  | be_DeleteObjects string 'x
  | be_AbortMultipartUpload string string string string string
  | be_DeleteObject string string
  | be_HeadObject string string
  | be_RestoreObject string string 'x
  | be_CompleteMultipartUpload string string string 'x
  | be_CreateMultipartUpload string string

text \<open>
  What a backend operation hands back: the result value \<open>res\<close> that is rendered as XML
  (\<open>'v\<close>), the object description of \<^verbatim>\<open>GetObject\<close> and \<^verbatim>\<open>HeadObject\<close>, the
  etag of \<^verbatim>\<open>PutObject\<close> and \<^verbatim>\<open>PutObjectPart\<close>, the bytes \<^verbatim>\<open>GetObject\<close> writes to the
  response body writer, and the error. An operation leaves the fields it does not have
  unread.
\<close>

record 'v reply =
  res :: "'v option"
  object :: "ObjectOutput option"
  etag :: string
  written :: string
  err :: "go_error option"

type_synonym ('v, 'x) Backend = "'x call \<Rightarrow> 'v reply"

text \<open>
  The routines of other packages that the controller calls and that are taken as given:
  the error catalog of \<^verbatim>\<open>s3err\<close> (\<^verbatim>\<open>GetAPIError\<close>, \<^verbatim>\<open>GetAPIErrorResponse\<close>),
  \<^verbatim>\<open>xml.Marshal\<close> and \<^verbatim>\<open>xml.Unmarshal\<close> (by the type of the value decoded into). A
  failing routine returns \<open>Inl\<close> of its error.
\<close>

datatype xml_target = Delete_target | RestoreObjectInput_target | Parts_target

record ('v, 'x) env =
  GetAPIError :: "ErrorCode \<Rightarrow> APIError"
  GetAPIErrorResponse :: "APIError \<Rightarrow> string \<Rightarrow> string \<Rightarrow> string \<Rightarrow> string"
  Marshal :: "'v \<Rightarrow> go_error + string"
  Unmarshal :: "xml_target \<Rightarrow> string \<Rightarrow> go_error + 'x"

section \<open>The request context\<close>

text \<open>
  What a handler reads from its \<^verbatim>\<open>*fiber.Ctx\<close>: the route parameters (\<^verbatim>\<open>bucket\<close>,
  \<^verbatim>\<open>key\<close>, \<^verbatim>\<open>*1\<close>), the URL path, the query arguments in order, the request headers
  as they were set,
  the body, the local \<^verbatim>\<open>access\<close> set by the authentication middleware when it is a
  string, and the response so far.
\<close>

record ctx =
  ctx_params :: "(string \<times> string) list"
  ctx_path :: string
  ctx_query :: "(string \<times> string) list"
  ctx_headers :: "(string \<times> string) list"
  ctx_body :: string
  ctx_access :: "string option"
  ctx_response :: response

definition Params :: "ctx \<Rightarrow> string \<Rightarrow> string" where
  "Params c k = lookup_default (ctx_params c) k"

definition Path :: "ctx \<Rightarrow> string" where
  "Path c = ctx_path c"

definition Body :: "ctx \<Rightarrow> string" where
  "Body c = ctx_body c"

text \<open>\<^verbatim>\<open>ctx.Query(key)\<close>: the value of the first argument of that name, or the empty
  string when there is none.\<close>

definition Query :: "ctx \<Rightarrow> string \<Rightarrow> string" where
  "Query c k = lookup_default (ctx_query c) k"

text \<open>\<^verbatim>\<open>ctx.QueryInt(key, default)\<close>: \<^verbatim>\<open>Atoi\<close> of the value, or the default when
  \<^verbatim>\<open>Atoi\<close> fails.\<close>

definition QueryInt :: "ctx \<Rightarrow> string \<Rightarrow> int \<Rightarrow> int" where
  "QueryInt c k d = (case Atoi (Query c k) of None \<Rightarrow> d | Some n \<Rightarrow> n)"

text \<open>\<^verbatim>\<open>ctx.Request().URI().QueryArgs().Has(key)\<close>: an argument of that name is there,
  whatever its value.\<close>

definition Has :: "ctx \<Rightarrow> string \<Rightarrow> bool" where
  "Has c k = (k \<in> set (map fst (ctx_query c)))"

text \<open>The value of the first request header of a name, or the empty string.\<close>

definition header_value :: "ctx \<Rightarrow> string \<Rightarrow> string" where
  "header_value c k = lookup_default (map (\<lambda>(n, v). (lower n, v)) (ctx_headers c)) (lower k)"

text \<open>
  The request keeps its Content-Length in a field of its own, which is filled only when
  the value parses as an unsigned decimal integer that fits Go's \<^verbatim>\<open>int\<close>: digits
  only, at least one. Any other value is dropped.
\<close>

definition accepted_content_length :: "string \<Rightarrow> bool" where
  "accepted_content_length v = (v \<noteq> [] \<and> list_all is_digit v \<and> decimal v \<le> 2 ^ 63 - 1)"

text \<open>\<^verbatim>\<open>ctx.Get(key)\<close>: the value of the request header of that name, or the empty
  string; for Content-Length, the value the request has kept, or the empty string.\<close>

definition Get :: "ctx \<Rightarrow> string \<Rightarrow> string" where
  "Get c k =
     (if lower k = ''content-length'' \<and> \<not> accepted_content_length (header_value c k) then []
      else header_value c k)"

section \<open>Handler outcomes and the response writer\<close>

text \<open>How a handler ends: it returns nil, it returns an error to the framework, or it
  panics.\<close>

datatype ret = Returned_nil | Returned go_error | Panicked

text \<open>
  The observable effects of a handler: the response in the context, the backend
  operations invoked in order, the errors written to standard error, and how it ended.
\<close>

record 'x outcome =
  resp :: response
  calls :: "'x call list"
  stderr :: "go_error list"
  ret :: ret

definition start :: "ctx \<Rightarrow> 'x outcome" where
  "start c = \<lparr>resp = ctx_response c, calls = [], stderr = [], ret = Returned_nil\<rparr>"

text \<open>Invoking a backend operation records it and yields its reply.\<close>

definition invoke ::
  "('v, 'x) Backend \<Rightarrow> 'x outcome \<Rightarrow> 'x call \<Rightarrow> 'x outcome \<times> 'v reply" where
  "invoke be st op = (st\<lparr>calls := calls st @ [op]\<rparr>, be op)"

definition Status :: "'x outcome \<Rightarrow> int \<Rightarrow> 'x outcome" where
  "Status st code = st\<lparr>resp := (resp st)\<lparr>status := code\<rparr>\<rparr>"

text \<open>\<^verbatim>\<open>ctx.Set\<close> and \<^verbatim>\<open>ctx.Response().Header.Set\<close>: the header gets the value, in place
  of an earlier one.\<close>

definition Set :: "'x outcome \<Rightarrow> string \<Rightarrow> string \<Rightarrow> 'x outcome" where
  "Set st k v = st\<lparr>resp := (resp st)\<lparr>header := AList.update (lower k) v (header (resp st))\<rparr>\<rparr>"

text \<open>Reading a response header by name.\<close>

definition Peek :: "response \<Rightarrow> string \<Rightarrow> string option" where
  "Peek r k = map_of (header r) (lower k)"

text \<open>\<^verbatim>\<open>ctx.Send(body)\<close> sets the body and returns nil.\<close>

definition Send :: "'x outcome \<Rightarrow> string \<Rightarrow> 'x outcome" where
  "Send st b = st\<lparr>resp := (resp st)\<lparr>rbody := b\<rparr>, ret := Returned_nil\<rparr>"

text \<open>\<^verbatim>\<open>ctx.SendStatus(200)\<close> sets the status and, when the body is empty, makes the
  status message \<^verbatim>\<open>OK\<close> the body.\<close>

definition SendStatus_OK :: "'x outcome \<Rightarrow> 'x outcome" where
  "SendStatus_OK st =
     (let st = Status st 200
      in if rbody (resp st) = [] then Send st ''OK'' else st\<lparr>ret := Returned_nil\<rparr>)"

text \<open>The bytes a backend writes to \<^verbatim>\<open>ctx.Response().BodyWriter()\<close> are appended to the
  body.\<close>

definition write_body :: "'x outcome \<Rightarrow> string \<Rightarrow> 'x outcome" where
  "write_body st w = st\<lparr>resp := (resp st)\<lparr>rbody := rbody (resp st) @ w\<rparr>\<rparr>"

definition SendResponse ::
  "('v, 'x) env \<Rightarrow> 'x outcome \<Rightarrow> go_error option \<Rightarrow> 'x outcome" where
  "SendResponse env st e =
     (case e of
        Some (APIErr serr) \<Rightarrow>
          Send (Status st (HTTPStatusCode serr)) (GetAPIErrorResponse env serr [] [] [])
      | Some other \<Rightarrow>
          Send (st\<lparr>stderr := stderr st @ [other]\<rparr>)
            (GetAPIErrorResponse env (GetAPIError env ErrInternalError) [] [] [])
      | None \<Rightarrow> (Status st 200)\<lparr>ret := Returned_nil\<rparr>)"

definition MIMEApplicationXML :: string where
  "MIMEApplicationXML = ''application/xml''"

definition SendXMLResponse ::
  "('v, 'x) env \<Rightarrow> 'x outcome \<Rightarrow> 'v option \<Rightarrow> go_error option \<Rightarrow> 'x outcome" where
  "SendXMLResponse env st r e =
     (case e of
        Some (APIErr serr) \<Rightarrow>
          Send (Status st (HTTPStatusCode serr)) (GetAPIErrorResponse env serr [] [] [])
      | Some other \<Rightarrow>
          Send (st\<lparr>stderr := stderr st @ [other]\<rparr>)
            (GetAPIErrorResponse env (GetAPIError env ErrInternalError) [] [] [])
      | None \<Rightarrow>
          (case r of
             None \<Rightarrow> Send st []
           | Some v \<Rightarrow>
               (case Marshal env v of
                  Inl merr \<Rightarrow> st\<lparr>ret := Returned merr\<rparr>
                | Inr b \<Rightarrow>
                    Send (if length b > 0 then Set st ''Content-Type'' MIMEApplicationXML else st) b)))"

section \<open>The header helpers of package utils\<close>

text \<open>
  Modelled from the spec: \<^verbatim>\<open>utils.SetMetaHeaders\<close>, which is not among the sources.
  Emit user metadata: for each entry, write header \<^verbatim>\<open>x-amz-meta-{suffix}: {value}\<close>.
\<close>

definition SetMetaHeaders :: "'x outcome \<Rightarrow> (string \<times> string) list \<Rightarrow> 'x outcome" where
  "SetMetaHeaders st meta = fold (\<lambda>(k, v) s. Set s (''x-amz-meta-'' @ k) v) meta st"

text \<open>
  Modelled from the spec: \<^verbatim>\<open>utils.SetResponseHeaders\<close>, which is not among the sources.
  Emit the standard response headers in the order given; nullable fields are written as
  empty strings to preserve header presence.
\<close>

definition SetResponseHeaders :: "'x outcome \<Rightarrow> (string \<times> string) list \<Rightarrow> 'x outcome" where
  "SetResponseHeaders st hs = fold (\<lambda>(k, v) s. Set s k v) hs st"

text \<open>
  Modelled from the spec: \<^verbatim>\<open>utils.GetUserMetaData\<close>, which is not among the sources.
  Iterate the request headers; for each header whose name starts, without regard to case,
  with \<^verbatim>\<open>x-amz-meta-\<close>, record the lower-cased suffix with the value.
\<close>

definition GetUserMetaData :: "(string \<times> string) list \<Rightarrow> (string \<times> string) list" where
  "GetUserMetaData hs =
     map (\<lambda>(n, v). (lower (drop 11 n), v))
       (filter (\<lambda>(n, v). take 11 (lower n) = ''x-amz-meta-'') hs)"

section \<open>The handlers\<close>

definition timefmt :: string where
  "timefmt = ''Mon, 02 Jan 2006 15:04:05 GMT''"

definition getstring :: "string option \<Rightarrow> string" where
  "getstring s = (case s of None \<Rightarrow> [] | Some v \<Rightarrow> v)"

definition wrong_api_call :: go_error where
  "wrong_api_call = PlainErr ''wrong api call''"

text \<open>The header block that \<^verbatim>\<open>GetActions\<close> and \<^verbatim>\<open>HeadObject\<close> share word for word.\<close>

definition object_headers :: "'x outcome \<Rightarrow> ObjectOutput \<Rightarrow> 'x outcome" where
  "object_headers st r =
     (let st = SetMetaHeaders st (Metadata r);
          lastmod = (case LastModified r of None \<Rightarrow> [] | Some t \<Rightarrow> Format t timefmt)
      in SetResponseHeaders st
           [(''Content-Length'', Sprint (ContentLength r)),
            (''Content-Type'', getstring (ContentType r)),
            (''Content-Encoding'', getstring (ContentEncoding r)),
            (''ETag'', getstring (ETag r)),
            (''Last-Modified'', lastmod)])"

definition GetActions ::
  "('v, 'x) env \<Rightarrow> ('v, 'x) Backend \<Rightarrow> ctx \<Rightarrow> 'x outcome" where
  "GetActions env be c =
     (let bucket = Params c ''bucket'';
          key = Params c ''key'';
          keyEnd = Params c ''*1'';
          uploadId = Query c ''uploadId'';
          maxParts = QueryInt c ''max-parts'' 0;
          partNumberMarker = QueryInt c ''part-number-marker'' 0;
          acceptRange = Get c ''Range'';
          key = (if keyEnd \<noteq> [] then Join [key, keyEnd] ''/'' else key)
      in if uploadId \<noteq> [] then
           if maxParts < 0 \<or> (maxParts = 0 \<and> Query c ''max-parts'' \<noteq> []) then
             SendResponse env (start c) (Some (APIErr (GetAPIError env ErrInvalidMaxParts)))
           else if partNumberMarker < 0
                   \<or> (partNumberMarker = 0 \<and> Query c ''part-number-marker'' \<noteq> []) then
             SendResponse env (start c)
               (Some (APIErr (GetAPIError env ErrInvalidPartNumberMarker)))
           else
             let (st, r) = invoke be (start c)
                             (be_ListObjectParts bucket key uploadId partNumberMarker maxParts)
             in SendXMLResponse env st (res r) (err r)
         else if Has c ''acl'' then
           let (st, r) = invoke be (start c) (be_GetObjectAcl bucket key)
           in SendXMLResponse env st (res r) (err r)
         else if Get c ''X-Amz-Object-Attributes'' \<noteq> [] then
           let (st, r) = invoke be (start c)
                           (be_GetObjectAttributes bucket key
                              (Split (Get c ''X-Amz-Object-Attributes'') CHR '',''))
           in SendXMLResponse env st (res r) (err r)
         else
           let (st, r) = invoke be (start c) (be_GetObject bucket key acceptRange);
               st = write_body st (written r)
           in if err r \<noteq> None then SendResponse env st (err r)
              else (case object r of
                      None \<Rightarrow> SendResponse env st (Some (PlainErr ''get object nil response''))
                    | Some out \<Rightarrow> SendStatus_OK (object_headers st out)))"

definition PutBucketActions ::
  "('v, 'x) env \<Rightarrow> ('v, 'x) Backend \<Rightarrow> ctx \<Rightarrow> 'x outcome" where
  "PutBucketActions env be c =
     (let bucket = Params c ''bucket'';
          acl = Get c ''X-Amz-Acl'';
          grantFullControl = Get c ''X-Amz-Grant-Full-Control'';
          grantRead = Get c ''X-Amz-Grant-Read'';
          grantReadACP = Get c ''X-Amz-Grant-Read-Acp'';
          granWrite = Get c ''X-Amz-Grant-Write'';
          grantWriteACP = Get c ''X-Amz-Grant-Write-Acp''
      in case ctx_access c of
           None \<Rightarrow> (start c)\<lparr>ret := Panicked\<rparr>
         | Some owner \<Rightarrow>
             let grants = grantFullControl @ grantRead @ grantReadACP @ granWrite @ grantWriteACP
             in if grants \<noteq> [] \<or> acl \<noteq> [] then
                  if grants \<noteq> [] \<and> acl \<noteq> [] then (start c)\<lparr>ret := Returned wrong_api_call\<rparr>
                  else
                    let (st, r) = invoke be (start c)
                                    (be_PutBucketAcl bucket acl grantFullControl grantRead
                                       grantReadACP granWrite grantWriteACP owner)
                    in SendResponse env st (err r)
                else
                  let (st, r) = invoke be (start c) (be_PutBucket bucket owner)
                  in SendResponse env st (err r))"

definition PutActions ::
  "('v, 'x) env \<Rightarrow> ('v, 'x) Backend \<Rightarrow> ctx \<Rightarrow> 'x outcome" where
  "PutActions env be c =
     (let bucket = Params c ''bucket'';
          keyStart = Params c ''key'';
          keyEnd = Params c ''*1'';
          uploadId = Query c ''uploadId'';
          partNumberStr = Query c ''partNumber'';
          copySource = Get c ''X-Amz-Copy-Source'';
          acl = Get c ''X-Amz-Acl'';
          grantFullControl = Get c ''X-Amz-Grant-Full-Control'';
          grantRead = Get c ''X-Amz-Grant-Read'';
          grantReadACP = Get c ''X-Amz-Grant-Read-Acp'';
          granWrite = Get c ''X-Amz-Grant-Write'';
          grantWriteACP = Get c ''X-Amz-Grant-Write-Acp'';
          contentLengthStr = Get c ''Content-Length'';
          grants = grantFullControl @ grantRead @ grantReadACP @ granWrite @ grantWriteACP;
          keyStart = (if keyEnd \<noteq> [] then Join [keyStart, keyEnd] ''/'' else keyStart);
          path = Path c
      in if path = [] \<or> (last path = CHR ''/'' \<and> keyStart = []) then
           (start c)\<lparr>ret := Panicked\<rparr>
         else
           let keyStart = (if last path = CHR ''/'' \<and> last keyStart \<noteq> CHR ''/''
                           then keyStart @ ''/'' else keyStart)
           in case (if contentLengthStr \<noteq> [] then ParseInt contentLengthStr else Some 0) of
                None \<Rightarrow>
                  SendResponse env (start c) (Some (APIErr (GetAPIError env ErrInvalidRequest)))
              | Some contentLength \<Rightarrow>
                  if uploadId \<noteq> [] \<and> partNumberStr \<noteq> [] then
                    let partNumber = QueryInt c ''partNumber'' (- 1)
                    in if partNumber < 1 then
                         SendResponse env (start c)
                           (Some (APIErr (GetAPIError env ErrInvalidPart)))
                       else
                         let (st, r) = invoke be (start c)
                                         (be_PutObjectPart bucket keyStart uploadId partNumber
                                            contentLength (Body c));
                             st = Set st ''Etag'' (etag r)
                         in SendResponse env st (err r)
                  else if grants \<noteq> [] \<or> acl \<noteq> [] then
                    if grants \<noteq> [] \<and> acl \<noteq> [] then
                      (start c)\<lparr>ret := Returned wrong_api_call\<rparr>
                    else
                      let (st, r) = invoke be (start c)
                                      (be_PutObjectAcl bucket keyStart acl grantFullControl
                                         grantRead grantReadACP granWrite grantWriteACP)
                      in SendResponse env st (err r)
                  else if copySource \<noteq> [] then
                    let copySourceSplit = Split copySource CHR ''/'';
                        srcBucket = hd copySourceSplit;
                        srcObject = tl copySourceSplit;
                        (st, r) = invoke be (start c)
                                    (be_CopyObject srcBucket (Join srcObject ''/'') bucket keyStart)
                    in SendXMLResponse env st (res r) (err r)
                  else
                    let metadata = GetUserMetaData (ctx_headers c);
                        (st, r) = invoke be (start c)
                                    (be_PutObject bucket keyStart contentLength metadata (Body c));
                        st = Set st ''ETag'' (etag r)
                    in SendResponse env st (err r))"

definition DeleteObjects ::
  "('v, 'x) env \<Rightarrow> ('v, 'x) Backend \<Rightarrow> ctx \<Rightarrow> 'x outcome" where
  "DeleteObjects env be c =
     (case Unmarshal env Delete_target (Body c) of
        Inl xmlErr \<Rightarrow> (start c)\<lparr>ret := Returned wrong_api_call\<rparr>
      | Inr dObj \<Rightarrow>
          let (st, r) = invoke be (start c) (be_DeleteObjects (Params c ''bucket'') dObj)
          in SendResponse env st (err r))"

definition DeleteActions ::
  "('v, 'x) env \<Rightarrow> ('v, 'x) Backend \<Rightarrow> ctx \<Rightarrow> 'x outcome" where
  "DeleteActions env be c =
     (let bucket = Params c ''bucket'';
          key = Params c ''key'';
          keyEnd = Params c ''*1'';
          uploadId = Query c ''uploadId'';
          key = (if keyEnd \<noteq> [] then Join [key, keyEnd] ''/'' else key)
      in if uploadId \<noteq> [] then
           let expectedBucketOwner = Get c ''X-Amz-Expected-Bucket-Owner'';
               requestPayer = Get c ''X-Amz-Request-Payer'';
               (st, r) = invoke be (start c)
                           (be_AbortMultipartUpload uploadId bucket key expectedBucketOwner
                              requestPayer)
           in SendResponse env st (err r)
         else
           let (st, r) = invoke be (start c) (be_DeleteObject bucket key)
           in SendResponse env st (err r))"

definition HeadObject ::
  "('v, 'x) env \<Rightarrow> ('v, 'x) Backend \<Rightarrow> ctx \<Rightarrow> 'x outcome" where
  "HeadObject env be c =
     (let bucket = Params c ''bucket'';
          key = Params c ''key'';
          keyEnd = Params c ''*1'';
          key = (if keyEnd \<noteq> [] then Join [key, keyEnd] ''/'' else key);
          (st, r) = invoke be (start c) (be_HeadObject bucket key)
      in if err r \<noteq> None then SendResponse env st (err r)
         else (case object r of
                 None \<Rightarrow> SendResponse env st (Some (PlainErr ''head object nil response''))
               | Some out \<Rightarrow> SendResponse env (object_headers st out) None))"

definition CreateActions ::
  "('v, 'x) env \<Rightarrow> ('v, 'x) Backend \<Rightarrow> ctx \<Rightarrow> 'x outcome" where
  "CreateActions env be c =
     (let bucket = Params c ''bucket'';
          key = Params c ''key'';
          keyEnd = Params c ''*1'';
          uploadId = Query c ''uploadId'';
          key = (if keyEnd \<noteq> [] then Join [key, keyEnd] ''/'' else key)
      in if Has c ''restore'' then
           (case Unmarshal env RestoreObjectInput_target (Body c) of
              Inl xmlErr \<Rightarrow> (start c)\<lparr>ret := Returned wrong_api_call\<rparr>
            | Inr restoreRequest \<Rightarrow>
                let (st, r) = invoke be (start c) (be_RestoreObject bucket key restoreRequest)
                in SendResponse env st (err r))
         else if uploadId \<noteq> [] then
           (case Unmarshal env Parts_target (Body c) of
              Inl xmlErr \<Rightarrow> (start c)\<lparr>ret := Returned wrong_api_call\<rparr>
            | Inr parts \<Rightarrow>
                let (st, r) = invoke be (start c)
                                (be_CompleteMultipartUpload bucket key uploadId parts)
                in SendXMLResponse env st (res r) (err r))
         else
           let (st, r) = invoke be (start c) (be_CreateMultipartUpload bucket key)
           in SendXMLResponse env st (res r) (err r))"

section \<open>Notions used to state the properties\<close>

text \<open>The five grant headers.\<close>

definition grant_headers :: "string list" where
  "grant_headers =
     [''X-Amz-Grant-Full-Control'', ''X-Amz-Grant-Read'', ''X-Amz-Grant-Read-Acp'',
      ''X-Amz-Grant-Write'', ''X-Amz-Grant-Write-Acp'']"

text \<open>
  A request that the router hands to an object-scope handler (route
  \<^verbatim>\<open>/:bucket/:key/*\<close>) has a path that is not empty and a \<^verbatim>\<open>key\<close> parameter that is not
  empty.
\<close>

definition routed :: "ctx \<Rightarrow> bool" where
  "routed c = (Path c \<noteq> [] \<and> Params c ''key'' \<noteq> [])"

text \<open>The object key as the data model describes it: the first segment, then a
  \<^verbatim>\<open>/\<close> and the wildcard tail when there is one.\<close>

definition joined_key :: "ctx \<Rightarrow> string" where
  "joined_key c =
     (if Params c ''*1'' = [] then Params c ''key''
      else Params c ''key'' @ ''/'' @ Params c ''*1'')"

definition ends_with_slash :: "string \<Rightarrow> bool" where
  "ends_with_slash s = (s \<noteq> [] \<and> last s = CHR ''/'')"

text \<open>The trailing-slash rule: if the URL path ends with \<^verbatim>\<open>/\<close> and the reconstructed
  key does not, append \<^verbatim>\<open>/\<close> to the key.\<close>

definition slashed_key :: "ctx \<Rightarrow> string" where
  "slashed_key c =
     (if ends_with_slash (Path c) \<and> \<not> ends_with_slash (joined_key c)
      then joined_key c @ ''/'' else joined_key c)"

text \<open>The part of a string before its first \<^verbatim>\<open>/\<close>, and the part after it.\<close>

definition before_slash :: "string \<Rightarrow> string" where
  "before_slash s = takeWhile (\<lambda>x. x \<noteq> CHR ''/'') s"

definition after_slash :: "string \<Rightarrow> string" where
  "after_slash s = drop 1 (dropWhile (\<lambda>x. x \<noteq> CHR ''/'') s)"

text \<open>The Content-Length that \<^verbatim>\<open>PutActions\<close> works with, when the header is empty or
  parses.\<close>

definition content_length :: "ctx \<Rightarrow> int option" where
  "content_length c =
     (if Get c ''Content-Length'' = [] then Some 0 else ParseInt (Get c ''Content-Length''))"

text \<open>The number that the Content-Length handed to the handler stands for, 0 when
  there is none.\<close>

definition content_length_value :: "ctx \<Rightarrow> int" where
  "content_length_value c =
     (if Get c ''Content-Length'' = [] then 0 else decimal (Get c ''Content-Length''))"


text \<open>An instant, in seconds since the epoch, written as an RFC 1123 date in GMT: the
  day of the week, the day, the month, the year and the time of day of the instant in
  UTC, and the zone \<^verbatim>\<open>GMT\<close>.\<close>

definition http_date :: "int \<Rightarrow> string" where
  "http_date i =
     day_names ! nat (weekday i) @ '', '' @ zero_pad 2 (day i) @ '' ''
       @ month_names ! nat (month i - 1) @ '' '' @ zero_pad 4 (year i) @ '' ''
       @ zero_pad 2 (hour i) @ '':'' @ zero_pad 2 (minute i) @ '':'' @ zero_pad 2 (second i)
       @ '' GMT''"

text \<open>A request without its query arguments of a given name.\<close>

definition without_query :: "string \<Rightarrow> ctx \<Rightarrow> ctx" where
  "without_query k c = c\<lparr>ctx_query := filter (\<lambda>(n, v). n \<noteq> k) (ctx_query c)\<rparr>"

text \<open>The response that carries a catalog error: its status and its rendering.\<close>

definition catalog_response ::
  "('v, 'x) env \<Rightarrow> ErrorCode \<Rightarrow> ctx \<Rightarrow> 'x outcome" where
  "catalog_response env code c =
     \<lparr>resp = (ctx_response c)\<lparr>status := HTTPStatusCode (GetAPIError env code),
                               rbody := GetAPIErrorResponse env (GetAPIError env code) [] [] []\<rparr>,
      calls = [], stderr = [], ret = Returned_nil\<rparr>"

text \<open>A handler that refuses a request returns the error \<^verbatim>\<open>wrong api call\<close> to the
  framework; it has then written nothing to the response and called no backend operation.\<close>

definition refused :: "ctx \<Rightarrow> 'x outcome" where
  "refused c =
     \<lparr>resp = ctx_response c, calls = [], stderr = [],
      ret = Returned (PlainErr ''wrong api call'')\<rparr>"

text \<open>A count given in the query that is not empty and is not a positive integer.\<close>

definition invalid_count :: "string \<Rightarrow> bool" where
  "invalid_count s = (s \<noteq> [] \<and> (case Atoi s of None \<Rightarrow> True | Some n \<Rightarrow> n \<le> 0))"

text \<open>The concatenation of the five grant headers, which the PUT handlers test.\<close>

definition grants :: "ctx \<Rightarrow> string" where
  "grants c =
     Get c ''X-Amz-Grant-Full-Control'' @ Get c ''X-Amz-Grant-Read''
       @ Get c ''X-Amz-Grant-Read-Acp'' @ Get c ''X-Amz-Grant-Write''
       @ Get c ''X-Amz-Grant-Write-Acp''"

text \<open>The backend operations of the PUT ladder, for a request and its content length.\<close>

definition put_part_call :: "ctx \<Rightarrow> int \<Rightarrow> 'x call" where
  "put_part_call c n =
     be_PutObjectPart (Params c ''bucket'') (slashed_key c) (Query c ''uploadId'')
       (QueryInt c ''partNumber'' (- 1)) n (Body c)"

definition put_acl_call :: "ctx \<Rightarrow> 'x call" where
  "put_acl_call c =
     be_PutObjectAcl (Params c ''bucket'') (slashed_key c) (Get c ''X-Amz-Acl'')
       (Get c ''X-Amz-Grant-Full-Control'') (Get c ''X-Amz-Grant-Read'')
       (Get c ''X-Amz-Grant-Read-Acp'') (Get c ''X-Amz-Grant-Write'')
       (Get c ''X-Amz-Grant-Write-Acp'')"

definition copy_call :: "ctx \<Rightarrow> 'x call" where
  "copy_call c =
     be_CopyObject (hd (Split (Get c ''X-Amz-Copy-Source'') CHR ''/''))
       (Join (tl (Split (Get c ''X-Amz-Copy-Source'') CHR ''/'')) ''/'')
       (Params c ''bucket'') (slashed_key c)"

definition put_object_call :: "ctx \<Rightarrow> int \<Rightarrow> 'x call" where
  "put_object_call c n =
     be_PutObject (Params c ''bucket'') (slashed_key c) n (GetUserMetaData (ctx_headers c))
       (Body c)"

text \<open>The backend operations of the GET ladder and of \<^verbatim>\<open>HeadObject\<close>.\<close>

definition list_parts_call :: "ctx \<Rightarrow> 'x call" where
  "list_parts_call c =
     be_ListObjectParts (Params c ''bucket'') (joined_key c) (Query c ''uploadId'')
       (QueryInt c ''part-number-marker'' 0) (QueryInt c ''max-parts'' 0)"

definition get_object_call :: "ctx \<Rightarrow> 'x call" where
  "get_object_call c = be_GetObject (Params c ''bucket'') (joined_key c) (Get c ''Range'')"

definition head_object_call :: "ctx \<Rightarrow> 'x call" where
  "head_object_call c = be_HeadObject (Params c ''bucket'') (joined_key c)"

section \<open>A catalog, a backend and requests for the examples\<close>

text \<open>
  Modelled from the spec: the catalog of package \<^verbatim>\<open>s3err\<close>, which is not among the
  sources. Each code has an HTTP status and a code string; the spec gives no message
  texts, so the code string stands in for the message.
\<close>

definition spec_code_string :: "ErrorCode \<Rightarrow> string" where
  "spec_code_string code =
     (case code of
        ErrInvalidRequest \<Rightarrow> ''InvalidRequest''
      | ErrInvalidMaxParts \<Rightarrow> ''InvalidMaxParts''
      | ErrInvalidPartNumberMarker \<Rightarrow> ''InvalidPartNumberMarker''
      | ErrInvalidPart \<Rightarrow> ''InvalidPart''
      | ErrNoSuchBucket \<Rightarrow> ''NoSuchBucket''
      | ErrNoSuchKey \<Rightarrow> ''NoSuchKey''
      | ErrBucketAlreadyExists \<Rightarrow> ''BucketAlreadyExists''
      | ErrAccessDenied \<Rightarrow> ''AccessDenied''
      | ErrInternalError \<Rightarrow> ''InternalError'')"

text \<open>Modelled from the spec: the HTTP status of each catalog entry, as the spec lists
  them for the catalog of \<^verbatim>\<open>s3err\<close>.\<close>

definition spec_http_status :: "ErrorCode \<Rightarrow> int" where
  "spec_http_status code =
     (case code of
        ErrInvalidRequest \<Rightarrow> 400
      | ErrInvalidMaxParts \<Rightarrow> 400
      | ErrInvalidPartNumberMarker \<Rightarrow> 400
      | ErrInvalidPart \<Rightarrow> 400
      | ErrNoSuchBucket \<Rightarrow> 404
      | ErrNoSuchKey \<Rightarrow> 404
      | ErrBucketAlreadyExists \<Rightarrow> 409
      | ErrAccessDenied \<Rightarrow> 403
      | ErrInternalError \<Rightarrow> 500)"

text \<open>Modelled from the spec: \<^verbatim>\<open>s3err.GetAPIError\<close>, which is not among the sources;
  it looks the entry of a code up in the catalog.\<close>

definition spec_GetAPIError :: "ErrorCode \<Rightarrow> APIError" where
  "spec_GetAPIError code =
     \<lparr>Code = spec_code_string code, Description = spec_code_string code,
      HTTPStatusCode = spec_http_status code\<rparr>"

text \<open>
  Modelled from the spec: \<^verbatim>\<open>s3err.GetAPIErrorResponse\<close>, which is not among the sources.
  The error document has the elements Code, Message, Resource and RequestId; the
  controller always passes empty strings for the last arguments, which leaves Resource
  and RequestId empty.
\<close>

definition spec_GetAPIErrorResponse :: "APIError \<Rightarrow> string \<Rightarrow> string \<Rightarrow> string \<Rightarrow> string" where
  "spec_GetAPIErrorResponse e resource requestId hostId =
     ''<?xml version='' @ [CHR 0x22] @ ''1.0'' @ [CHR 0x22] @ '' encoding='' @ [CHR 0x22]
       @ ''UTF-8'' @ [CHR 0x22] @ ''?>'' @ [CHR 0x0A]
       @ ''<Error><Code>'' @ Code e @ ''</Code><Message>'' @ Description e
       @ ''</Message><Resource/><RequestId/></Error>''"

text \<open>An environment for the examples: values are rendered as they are, and an empty
  body does not decode (\<^verbatim>\<open>xml.Unmarshal\<close> reports EOF on it).\<close>

definition sample_env :: "(string, string) env" where
  "sample_env =
     \<lparr>GetAPIError = spec_GetAPIError,
      GetAPIErrorResponse = spec_GetAPIErrorResponse,
      Marshal = (\<lambda>v. Inr v),
      Unmarshal = (\<lambda>t b. if b = [] then Inl (PlainErr ''EOF'') else Inr b)\<rparr>"

text \<open>A backend that succeeds on every operation without an object description, and one
  that describes every object with a given modification time, or with none.\<close>

definition sample_backend :: "(string, string) Backend" where
  "sample_backend op =
     \<lparr>res = Some ''<Result/>'', object = None, etag = ''etag-1'', written = [], err = None\<rparr>"

definition sample_object :: "ObjectOutput" where
  "sample_object =
     \<lparr>Metadata = [(''foo'', ''bar'')], LastModified = None, ContentLength = 3,
      ContentType = None, ContentEncoding = None, ETag = Some ''etag-1''\<rparr>"

definition object_backend :: "Time option \<Rightarrow> (string, string) Backend" where
  "object_backend t op =
     \<lparr>res = None, object = Some (sample_object\<lparr>LastModified := t\<rparr>), etag = [],
      written = ''abc'', err = None\<rparr>"

text \<open>The response of a context that nothing was written to: the status reads 200.\<close>

definition fresh_response :: response where
  "fresh_response = \<lparr>status = 200, header = [], rbody = []\<rparr>"

text \<open>A request for \<^verbatim>\<open>/b1/k1\<close> with the given query arguments, headers and body.\<close>

definition request ::
  "(string \<times> string) list \<Rightarrow> (string \<times> string) list \<Rightarrow> string \<Rightarrow> ctx" where
  "request q hs b =
     \<lparr>ctx_params = [(''bucket'', ''b1''), (''key'', ''k1'')], ctx_path = ''/b1/k1'',
      ctx_query = q, ctx_headers = hs, ctx_body = b, ctx_access = Some ''alice'',
      ctx_response = fresh_response\<rparr>"

text \<open>A request for \<^verbatim>\<open>/b1/dir/\<close>, whose path ends with a slash.\<close>

definition dir_request :: ctx where
  "dir_request =
     \<lparr>ctx_params = [(''bucket'', ''b1''), (''key'', ''dir'')], ctx_path = ''/b1/dir/'',
      ctx_query = [], ctx_headers = [], ctx_body = [], ctx_access = Some ''alice'',
      ctx_response = fresh_response\<rparr>"

section \<open>Facts about the response writer\<close>

lemma SendResponse_catalog:
  "SendResponse env (start c) (Some (APIErr (GetAPIError env code))) = catalog_response env code c"
  by (simp add: SendResponse_def catalog_response_def Send_def Status_def start_def)

lemma calls_SendResponse: "calls (SendResponse env st e) = calls st"
  by (simp add: SendResponse_def Send_def Status_def split: option.splits go_error.splits)

lemma calls_SendXMLResponse: "calls (SendXMLResponse env st r e) = calls st"
  by (simp add: SendXMLResponse_def Send_def Status_def Set_def
      split: option.splits go_error.splits sum.splits)

lemma header_SendResponse: "header (resp (SendResponse env st e)) = header (resp st)"
  by (simp add: SendResponse_def Send_def Status_def split: option.splits go_error.splits)

lemma Peek_Set: "Peek (resp (Set st k v)) k' = (if lower k = lower k' then Some v else Peek (resp st) k')"
  by (simp add: Peek_def Set_def update_conv)

lemma calls_Set: "calls (Set st k v) = calls st"
  by (simp add: Set_def)

lemma refused_start: "(start c)\<lparr>ret := Returned wrong_api_call\<rparr> = refused c"
  by (simp add: start_def refused_def wrong_api_call_def)

lemma invoke_start: "invoke be (start c) op = ((start c)\<lparr>calls := [op]\<rparr>, be op)"
  by (simp add: invoke_def start_def)

section \<open>The object key and the PUT ladder\<close>

lemma key_join:
  "(if Params c ''*1'' \<noteq> [] then Join [Params c ''key'', Params c ''*1''] ''/'' else Params c ''key'')
     = joined_key c"
  by (simp add: joined_key_def)

lemma joined_key_nonempty: "Params c ''key'' \<noteq> [] \<Longrightarrow> joined_key c \<noteq> []"
  by (simp add: joined_key_def)

lemma key_slash:
  "routed c \<Longrightarrow>
   (if last (Path c) = CHR ''/'' \<and> last (joined_key c) \<noteq> CHR ''/''
    then joined_key c @ ''/'' else joined_key c) = slashed_key c"
  by (simp add: slashed_key_def ends_with_slash_def routed_def joined_key_nonempty)

lemma content_length_case:
  "(if Get c ''Content-Length'' \<noteq> [] then ParseInt (Get c ''Content-Length'') else Some 0)
     = content_length c"
  by (simp add: content_length_def)

lemma digit_not_sign: "is_digit x \<Longrightarrow> x \<noteq> CHR ''+'' \<and> x \<noteq> CHR ''-''"
  by (auto simp: is_digit_def)

lemma accepted_parses:
  assumes "accepted_content_length v"
  shows "ParseInt v = Some (decimal v)"
proof -
  from assms obtain x xs where v: "v = x # xs" and "is_digit x"
    by (cases v) (auto simp: accepted_content_length_def)
  then have "hd v \<noteq> CHR ''+''" "hd v \<noteq> CHR ''-''"
    using digit_not_sign [of x] by simp_all
  with assms show ?thesis
    by (simp add: ParseInt_def accepted_content_length_def Let_def)
qed

lemma Get_content_length:
  "Get c ''Content-Length'' = [] \<or> accepted_content_length (Get c ''Content-Length'')"
  by (simp add: Get_def lower_def to_lower_def)

lemma content_length_Some: "content_length c = Some (content_length_value c)"
  using Get_content_length [of c]
  by (auto simp: content_length_def content_length_value_def accepted_parses)

lemma grants_nonempty:
  assumes "\<exists>h \<in> set grant_headers. Get c h \<noteq> []"
  shows "grants c \<noteq> []"
  using assms by (auto simp: grant_headers_def grants_def)

lemma grants_empty:
  assumes "\<forall>h \<in> set grant_headers. Get c h = []"
  shows "grants c = []"
  using assms by (simp add: grant_headers_def grants_def)

text \<open>The ladder of \<^verbatim>\<open>PutActions\<close> on a routed request, one rung per line of the
  handler.\<close>

lemma PutActions_routed:
  assumes "routed c"
  shows "PutActions env be c =
    (case content_length c of
       None \<Rightarrow> catalog_response env ErrInvalidRequest c
     | Some n \<Rightarrow>
        if Query c ''uploadId'' \<noteq> [] \<and> Query c ''partNumber'' \<noteq> [] then
          if QueryInt c ''partNumber'' (- 1) < 1 then catalog_response env ErrInvalidPart c
          else SendResponse env
                 (Set ((start c)\<lparr>calls := [put_part_call c n]\<rparr>) ''Etag''
                    (etag (be (put_part_call c n))))
                 (err (be (put_part_call c n)))
        else if grants c \<noteq> [] \<or> Get c ''X-Amz-Acl'' \<noteq> [] then
          if grants c \<noteq> [] \<and> Get c ''X-Amz-Acl'' \<noteq> [] then
            (start c)\<lparr>ret := Returned wrong_api_call\<rparr>
          else SendResponse env ((start c)\<lparr>calls := [put_acl_call c]\<rparr>)
                 (err (be (put_acl_call c)))
        else if Get c ''X-Amz-Copy-Source'' \<noteq> [] then
          SendXMLResponse env ((start c)\<lparr>calls := [copy_call c]\<rparr>)
            (res (be (copy_call c))) (err (be (copy_call c)))
        else
          SendResponse env
            (Set ((start c)\<lparr>calls := [put_object_call c n]\<rparr>) ''ETag''
               (etag (be (put_object_call c n))))
            (err (be (put_object_call c n))))"
proof -
  have p: "\<not> (Path c = [] \<or> last (Path c) = CHR ''/'' \<and> joined_key c = [])"
    using assms by (simp add: routed_def joined_key_nonempty)
  show ?thesis
    unfolding PutActions_def Let_def key_join key_slash [OF assms] content_length_case
      grants_def [symmetric] if_not_P [OF p] SendResponse_catalog invoke_start
      put_part_call_def put_acl_call_def copy_call_def put_object_call_def
    by (simp add: case_prod_beta split del: if_split cong: if_cong option.case_cong)
qed

section \<open>Canned ACL together with grant headers\<close>

text \<open>
  C1. A PUT on a bucket, or a PUT on an object outside the branch for uploadId with
  partNumber, that carries a non-empty \<^verbatim>\<open>X-Amz-Acl\<close> header and at least one non-empty
  grant header ends in a protocol error and invokes no backend operation. The bucket
  handler refuses the request with the error \<^verbatim>\<open>wrong api call\<close>; so does the object
  handler, unless the Content-Length header fails to parse, which it reports first as
  InvalidRequest. The bucket handler needs the authenticated principal, the object
  handler a routed request.
\<close>

theorem acl_with_grants_is_refused:
  assumes acl: "Get c ''X-Amz-Acl'' \<noteq> []"
    and grant: "\<exists>h \<in> set grant_headers. Get c h \<noteq> []"
  shows "(ctx_access c \<noteq> None \<longrightarrow>
            PutBucketActions env be c = refused c
            \<and> calls (PutBucketActions env be c) = [])
       \<and> (routed c \<and> \<not> (Query c ''uploadId'' \<noteq> [] \<and> Query c ''partNumber'' \<noteq> []) \<longrightarrow>
            PutActions env be c =
              (if content_length c = None then catalog_response env ErrInvalidRequest c
               else refused c)
            \<and> calls (PutActions env be c) = [])"
proof (intro conjI impI)
  note g = grants_nonempty [OF grant]
  assume "ctx_access c \<noteq> None"
  then show b: "PutBucketActions env be c = refused c"
    using acl g by (auto simp: PutBucketActions_def Let_def grants_def refused_start)
  show "calls (PutBucketActions env be c) = []"
    unfolding b by (simp add: refused_def)
next
  note g = grants_nonempty [OF grant]
  assume r: "routed c \<and> \<not> (Query c ''uploadId'' \<noteq> [] \<and> Query c ''partNumber'' \<noteq> [])"
  then have "routed c" by simp
  from PutActions_routed [OF this] r acl g
  show eq: "PutActions env be c =
              (if content_length c = None then catalog_response env ErrInvalidRequest c
               else refused c)"
    by (auto simp: refused_start split: option.splits)
  show "calls (PutActions env be c) = []"
    unfolding eq by (simp add: catalog_response_def refused_def)
qed

lemma sample_acl_and_grant:
  "Get (request q [(''X-Amz-Acl'', ''private''), (''X-Amz-Grant-Read'', ''id=alice'')] b) ''X-Amz-Acl''
     = ''private''
   \<and> Get (request q [(''X-Amz-Acl'', ''private''), (''X-Amz-Grant-Read'', ''id=alice'')] b)
       ''X-Amz-Grant-Read'' = ''id=alice''
   \<and> Get (request q [(''X-Amz-Acl'', ''private''), (''X-Amz-Grant-Read'', ''id=alice'')] b)
       ''Content-Length'' = []"
  by (simp add: Get_def header_value_def accepted_content_length_def request_def
      lookup_default_def lower_def to_lower_def)

theorem acl_with_grants_is_refused_witness:
  "Get (request [] [(''X-Amz-Acl'', ''private''), (''X-Amz-Grant-Read'', ''id=alice'')] [])
     ''X-Amz-Acl'' \<noteq> []
   \<and> Get (request [] [(''X-Amz-Acl'', ''private''), (''X-Amz-Grant-Read'', ''id=alice'')] [])
       ''X-Amz-Grant-Read'' \<noteq> []
   \<and> ret (PutBucketActions sample_env sample_backend
        (request [] [(''X-Amz-Acl'', ''private''), (''X-Amz-Grant-Read'', ''id=alice'')] []))
       = Returned (PlainErr ''wrong api call'')
   \<and> calls (PutBucketActions sample_env sample_backend
        (request [] [(''X-Amz-Acl'', ''private''), (''X-Amz-Grant-Read'', ''id=alice'')] [])) = []
   \<and> ret (PutActions sample_env sample_backend
        (request [] [(''X-Amz-Acl'', ''private''), (''X-Amz-Grant-Read'', ''id=alice'')] []))
       = Returned (PlainErr ''wrong api call'')
   \<and> calls (PutActions sample_env sample_backend
        (request [] [(''X-Amz-Acl'', ''private''), (''X-Amz-Grant-Read'', ''id=alice'')] [])) = []"
proof -
  let ?c = "request [] [(''X-Amz-Acl'', ''private''), (''X-Amz-Grant-Read'', ''id=alice'')] []"
  have acl: "Get ?c ''X-Amz-Acl'' \<noteq> []" and gr: "Get ?c ''X-Amz-Grant-Read'' \<noteq> []"
    by (simp_all add: sample_acl_and_grant)
  have grant: "\<exists>h \<in> set grant_headers. Get ?c h \<noteq> []"
    using gr by (simp add: grant_headers_def)
  have a: "ctx_access ?c \<noteq> None" by (simp add: request_def)
  have r: "routed ?c \<and> \<not> (Query ?c ''uploadId'' \<noteq> [] \<and> Query ?c ''partNumber'' \<noteq> [])"
    by (simp add: routed_def request_def Path_def Params_def Query_def lookup_default_def)
  have cl: "content_length ?c \<noteq> None"
    by (simp add: content_length_def sample_acl_and_grant)
  note t = acl_with_grants_is_refused [OF acl grant, of sample_env sample_backend]
  from t a have b: "PutBucketActions sample_env sample_backend ?c = refused ?c"
    by blast
  from t r cl have p: "PutActions sample_env sample_backend ?c = refused ?c"
    by simp
  show ?thesis
    unfolding b p using acl gr by (simp add: refused_def)
qed

section \<open>Evaluating the example requests\<close>

lemmas read_request =
  request_def Get_def header_value_def accepted_content_length_def Query_def QueryInt_def Params_def Path_def Body_def Has_def
  lookup_default_def lower_def to_lower_def

lemmas read_number = Atoi_def ParseInt_def is_digit_def decimal_def digit_val_def

lemma request_routed: "routed (request q hs b)"
  by (simp add: routed_def request_def Path_def Params_def lookup_default_def)

lemma request_key: "slashed_key (request q hs b) = ''k1''"
  by (simp add: slashed_key_def joined_key_def ends_with_slash_def request_def Path_def
      Params_def lookup_default_def)

lemma request_bucket: "Params (request q hs b) ''bucket'' = ''b1''"
  by (simp add: request_def Params_def lookup_default_def)

section \<open>Uploading a part\<close>

text \<open>
  C2. For a routed PUT on an object whose query parameters uploadId and partNumber are
  both non-empty: if partNumber parses as an integer of at least 1, the handler calls
  exactly PutObjectPart, with the bucket, the reconstructed key, the uploadId, the part
  number, the parsed Content-Length and the body, and the etag of the backend is the
  value of the ETag response header; if partNumber does not parse as an integer of at
  least 1, the response is the InvalidPart catalog error and no backend operation is
  called.
\<close>

theorem put_part_dispatch:
  assumes "routed c"
    and "Query c ''uploadId'' \<noteq> []" and "Query c ''partNumber'' \<noteq> []"
  shows "(Atoi (Query c ''partNumber'') = Some p \<and> 1 \<le> p \<longrightarrow>
            calls (PutActions env be c) =
              [be_PutObjectPart (Params c ''bucket'') (slashed_key c) (Query c ''uploadId'') p
                 (content_length_value c) (Body c)]
            \<and> Peek (resp (PutActions env be c)) ''ETag'' =
                Some (etag (be (be_PutObjectPart (Params c ''bucket'') (slashed_key c)
                  (Query c ''uploadId'') p (content_length_value c) (Body c)))))
       \<and> ((\<forall>i. Atoi (Query c ''partNumber'') = Some i \<longrightarrow> i < 1) \<longrightarrow>
            PutActions env be c = catalog_response env ErrInvalidPart c
            \<and> calls (PutActions env be c) = [])"
proof (intro conjI impI)
  let ?n = "content_length_value c"
  assume "Atoi (Query c ''partNumber'') = Some p \<and> 1 \<le> p"
  then have pn: "QueryInt c ''partNumber'' (- 1) = p" and "1 \<le> p"
    by (simp_all add: QueryInt_def)
  then have eq: "PutActions env be c =
      SendResponse env
        (Set ((start c)\<lparr>calls := [put_part_call c ?n]\<rparr>) ''Etag'' (etag (be (put_part_call c ?n))))
        (err (be (put_part_call c ?n)))"
    using assms by (simp add: PutActions_routed content_length_Some)
  have op: "put_part_call c ?n =
      be_PutObjectPart (Params c ''bucket'') (slashed_key c) (Query c ''uploadId'') p ?n (Body c)"
    by (simp add: put_part_call_def pn)
  show "calls (PutActions env be c) =
      [be_PutObjectPart (Params c ''bucket'') (slashed_key c) (Query c ''uploadId'') p ?n (Body c)]"
    unfolding eq op by (simp add: calls_SendResponse calls_Set)
  have "lower ''Etag'' = lower ''ETag''"
    by (simp add: lower_def to_lower_def)
  then show "Peek (resp (PutActions env be c)) ''ETag'' =
      Some (etag (be (be_PutObjectPart (Params c ''bucket'') (slashed_key c)
        (Query c ''uploadId'') p ?n (Body c))))"
    unfolding eq op by (simp add: Peek_def header_SendResponse Set_def update_conv)
next
  assume "\<forall>i. Atoi (Query c ''partNumber'') = Some i \<longrightarrow> i < 1"
  then have "QueryInt c ''partNumber'' (- 1) < 1"
    by (simp add: QueryInt_def split: option.splits)
  then show eq: "PutActions env be c = catalog_response env ErrInvalidPart c"
    using assms by (simp add: PutActions_routed content_length_Some)
  show "calls (PutActions env be c) = []"
    unfolding eq by (simp add: catalog_response_def)
qed

theorem put_part_dispatch_witness:
  "routed (request [(''uploadId'', ''U''), (''partNumber'', ''3'')] [(''Content-Length'', ''3'')] ''abc'')
   \<and> content_length_value
       (request [(''uploadId'', ''U''), (''partNumber'', ''3'')] [(''Content-Length'', ''3'')] ''abc'')
     = 3
   \<and> calls (PutActions sample_env sample_backend
       (request [(''uploadId'', ''U''), (''partNumber'', ''3'')] [(''Content-Length'', ''3'')] ''abc''))
     = [be_PutObjectPart ''b1'' ''k1'' ''U'' 3 3 ''abc'']
   \<and> Peek (resp (PutActions sample_env sample_backend
       (request [(''uploadId'', ''U''), (''partNumber'', ''3'')] [(''Content-Length'', ''3'')] ''abc'')))
       ''ETag'' = Some ''etag-1''
   \<and> PutActions sample_env sample_backend
       (request [(''uploadId'', ''U''), (''partNumber'', ''x'')] [(''Content-Length'', ''3'')] ''abc'')
     = catalog_response sample_env ErrInvalidPart
         (request [(''uploadId'', ''U''), (''partNumber'', ''x'')] [(''Content-Length'', ''3'')] ''abc'')"
proof -
  let ?c = "request [(''uploadId'', ''U''), (''partNumber'', ''3'')] [(''Content-Length'', ''3'')] ''abc''"
  let ?d = "request [(''uploadId'', ''U''), (''partNumber'', ''x'')] [(''Content-Length'', ''3'')] ''abc''"
  have cl: "content_length_value ?c = 3"
    by (simp add: content_length_value_def read_request is_digit_def decimal_def digit_val_def)
  have q: "Query ?c ''uploadId'' = ''U''" "Query ?c ''partNumber'' = ''3''"
    "Query ?d ''uploadId'' = ''U''" "Query ?d ''partNumber'' = ''x''" "Body ?c = ''abc''"
    by (simp_all add: read_request)
  have a: "Atoi ''3'' = Some 3" "Atoi ''x'' = None"
    by (simp_all add: read_number)
  have rc: "routed ?c" and rd: "routed ?d"
    by (rule request_routed)+
  from put_part_dispatch [OF rc, of 3 sample_env sample_backend]
  have 1: "calls (PutActions sample_env sample_backend ?c) = [be_PutObjectPart ''b1'' ''k1'' ''U'' 3 3 ''abc'']
    \<and> Peek (resp (PutActions sample_env sample_backend ?c)) ''ETag'' = Some ''etag-1''"
    by (simp add: q a cl request_key request_bucket sample_backend_def)
  from put_part_dispatch [OF rd, of 0 sample_env sample_backend]
  have 2: "PutActions sample_env sample_backend ?d = catalog_response sample_env ErrInvalidPart ?d"
    by (simp add: q a)
  show ?thesis using 1 2 cl rc by simp
qed

section \<open>The Content-Length of a PUT\<close>







lemma calls_catalog_response: "calls (catalog_response env code c) = []"
  by (simp add: catalog_response_def)




section \<open>Copying an object\<close>

lemma Split_nonempty: "Split s sep \<noteq> []"
  by (induction s) (auto split: list.splits)

lemma Join_Split: "Join (Split s sep) [sep] = s"
proof (induction s)
  case Nil
  show ?case by simp
next
  case (Cons x xs)
  show ?case
  proof (cases "x = sep")
    case True
    obtain p ps where "Split xs sep = p # ps"
      using Split_nonempty [of xs sep] by (cases "Split xs sep") auto
    with True Cons show ?thesis by simp
  next
    case False
    obtain p ps where s: "Split xs sep = p # ps"
      using Split_nonempty [of xs sep] by (cases "Split xs sep") auto
    with Cons have "Join (p # ps) [sep] = xs" by simp
    then have "Join ((x # p) # ps) [sep] = x # xs"
      by (cases ps) auto
    with False s show ?thesis by simp
  qed
qed

lemma hd_Split: "hd (Split s sep) = takeWhile (\<lambda>x. x \<noteq> sep) s"
  by (induction s) (auto split: list.splits simp: Split_nonempty)

lemma tl_Split: "Join (tl (Split s sep)) [sep] = drop 1 (dropWhile (\<lambda>x. x \<noteq> sep) s)"
  by (induction s) (auto split: list.splits simp: Split_nonempty Join_Split)

lemma copy_call_first_slash:
  "copy_call c =
     be_CopyObject (before_slash (Get c ''X-Amz-Copy-Source''))
       (after_slash (Get c ''X-Amz-Copy-Source'')) (Params c ''bucket'') (slashed_key c)"
  by (simp add: copy_call_def before_slash_def after_slash_def hd_Split tl_Split)

text \<open>
  C7. For a routed PUT on an object with a non-empty \<^verbatim>\<open>X-Amz-Copy-Source\<close> header, no
  pair of uploadId and partNumber, and no ACL or grant header: the header value is split
  at its first \<^verbatim>\<open>/\<close> into source bucket and source key, and the handler calls exactly
  CopyObject with the source bucket, the source key, the destination bucket and the
  destination key.
\<close>

theorem copy_object_dispatch:
  assumes "routed c"
    and "\<not> (Query c ''uploadId'' \<noteq> [] \<and> Query c ''partNumber'' \<noteq> [])"
    and "\<forall>h \<in> set grant_headers. Get c h = []" and "Get c ''X-Amz-Acl'' = []"
    and "Get c ''X-Amz-Copy-Source'' \<noteq> []"
  shows "calls (PutActions env be c) =
           [be_CopyObject (before_slash (Get c ''X-Amz-Copy-Source''))
              (after_slash (Get c ''X-Amz-Copy-Source'')) (Params c ''bucket'') (slashed_key c)]"
proof -
  have "grants c = []"
    using assms(3) by (rule grants_empty)
  with assms have "PutActions env be c =
      SendXMLResponse env ((start c)\<lparr>calls := [copy_call c]\<rparr>)
        (res (be (copy_call c))) (err (be (copy_call c)))"
    by (auto simp add: PutActions_routed content_length_Some)
  then show ?thesis
    by (simp add: calls_SendXMLResponse copy_call_first_slash)
qed

theorem copy_object_dispatch_witness:
  "routed (request [] [(''X-Amz-Copy-Source'', ''src/obj/sub'')] [])
   \<and> Get (request [] [(''X-Amz-Copy-Source'', ''src/obj/sub'')] []) ''X-Amz-Copy-Source''
       = ''src/obj/sub''
   \<and> calls (PutActions sample_env sample_backend
       (request [] [(''X-Amz-Copy-Source'', ''src/obj/sub'')] []))
     = [be_CopyObject ''src'' ''obj/sub'' ''b1'' ''k1'']"
proof -
  let ?c = "request [] [(''X-Amz-Copy-Source'', ''src/obj/sub'')] []"
  have q: "\<not> (Query ?c ''uploadId'' \<noteq> [] \<and> Query ?c ''partNumber'' \<noteq> [])"
    "\<forall>h \<in> set grant_headers. Get ?c h = []" "Get ?c ''X-Amz-Acl'' = []"
    by (simp_all add: read_request grant_headers_def)
  have s: "Get ?c ''X-Amz-Copy-Source'' = ''src/obj/sub''"
    by (simp add: read_request)
  then have n: "Get ?c ''X-Amz-Copy-Source'' \<noteq> []"
    by simp
  have r: "routed ?c"
    by (rule request_routed)
  from copy_object_dispatch [OF r q n, of sample_env sample_backend]
  have "calls (PutActions sample_env sample_backend ?c) = [be_CopyObject ''src'' ''obj/sub'' ''b1'' ''k1'']"
    by (simp add: s before_slash_def after_slash_def request_key request_bucket)
  then show ?thesis using s r by simp
qed

section \<open>The GET ladder\<close>

lemma Atoi_empty: "Atoi [] = None"
  by (simp add: Atoi_def ParseInt_def)

lemma count_check:
  "(QueryInt c k 0 < 0 \<or> (QueryInt c k 0 = 0 \<and> Query c k \<noteq> [])) = invalid_count (Query c k)"
proof (cases "Atoi (Query c k)")
  case None
  then show ?thesis by (simp add: QueryInt_def invalid_count_def)
next
  case (Some n)
  then have "Query c k \<noteq> []" using Atoi_empty by auto
  with Some show ?thesis by (auto simp: QueryInt_def invalid_count_def)
qed

lemma GetActions_ladder:
  "GetActions env be c =
     (if Query c ''uploadId'' \<noteq> [] then
        if invalid_count (Query c ''max-parts'') then catalog_response env ErrInvalidMaxParts c
        else if invalid_count (Query c ''part-number-marker'') then
          catalog_response env ErrInvalidPartNumberMarker c
        else SendXMLResponse env ((start c)\<lparr>calls := [list_parts_call c]\<rparr>)
               (res (be (list_parts_call c))) (err (be (list_parts_call c)))
      else if Has c ''acl'' then
        SendXMLResponse env
          ((start c)\<lparr>calls := [be_GetObjectAcl (Params c ''bucket'') (joined_key c)]\<rparr>)
          (res (be (be_GetObjectAcl (Params c ''bucket'') (joined_key c))))
          (err (be (be_GetObjectAcl (Params c ''bucket'') (joined_key c))))
      else if Get c ''X-Amz-Object-Attributes'' \<noteq> [] then
        SendXMLResponse env
          ((start c)\<lparr>calls := [be_GetObjectAttributes (Params c ''bucket'') (joined_key c)
             (Split (Get c ''X-Amz-Object-Attributes'') CHR '','')]\<rparr>)
          (res (be (be_GetObjectAttributes (Params c ''bucket'') (joined_key c)
             (Split (Get c ''X-Amz-Object-Attributes'') CHR '',''))))
          (err (be (be_GetObjectAttributes (Params c ''bucket'') (joined_key c)
             (Split (Get c ''X-Amz-Object-Attributes'') CHR '',''))))
      else if err (be (get_object_call c)) \<noteq> None then
        SendResponse env
          (write_body ((start c)\<lparr>calls := [get_object_call c]\<rparr>) (written (be (get_object_call c))))
          (err (be (get_object_call c)))
      else (case object (be (get_object_call c)) of
              None \<Rightarrow>
                SendResponse env
                  (write_body ((start c)\<lparr>calls := [get_object_call c]\<rparr>)
                     (written (be (get_object_call c))))
                  (Some (PlainErr ''get object nil response''))
            | Some out \<Rightarrow>
                SendStatus_OK (object_headers
                  (write_body ((start c)\<lparr>calls := [get_object_call c]\<rparr>)
                     (written (be (get_object_call c)))) out)))"
  unfolding GetActions_def Let_def key_join count_check SendResponse_catalog invoke_start
    list_parts_call_def get_object_call_def
  by (simp add: case_prod_beta split del: if_split cong: if_cong option.case_cong)

lemma sample_get_object: "get_object_call (request [] hs b) = be_GetObject ''b1'' ''k1'' (Get (request [] hs b) ''Range'')"
  by (simp add: get_object_call_def joined_key_def request_def Params_def lookup_default_def)

section \<open>Errors that are not catalog entries\<close>

lemma SendResponse_plain:
  "SendResponse env st (Some (PlainErr m)) =
     st\<lparr>resp := (resp st)\<lparr>rbody := GetAPIErrorResponse env (GetAPIError env ErrInternalError) [] [] []\<rparr>,
        stderr := stderr st @ [PlainErr m], ret := Returned_nil\<rparr>"
  by (simp add: SendResponse_def Send_def)

lemma SendXMLResponse_plain:
  "SendXMLResponse env st r (Some (PlainErr m)) =
     st\<lparr>resp := (resp st)\<lparr>rbody := GetAPIErrorResponse env (GetAPIError env ErrInternalError) [] [] []\<rparr>,
        stderr := stderr st @ [PlainErr m], ret := Returned_nil\<rparr>"
  by (simp add: SendXMLResponse_def Send_def)

lemma SendResponse_APIErr:
  "SendResponse env st (Some (APIErr e)) =
     st\<lparr>resp := (resp st)\<lparr>status := HTTPStatusCode e, rbody := GetAPIErrorResponse env e [] [] []\<rparr>,
        ret := Returned_nil\<rparr>"
  by (simp add: SendResponse_def Send_def Status_def)

lemma SendXMLResponse_APIErr:
  "SendXMLResponse env st r (Some (APIErr e)) =
     st\<lparr>resp := (resp st)\<lparr>status := HTTPStatusCode e, rbody := GetAPIErrorResponse env e [] [] []\<rparr>,
        ret := Returned_nil\<rparr>"
  by (simp add: SendXMLResponse_def Send_def Status_def)

text \<open>
  C3. The claim holds for catalog errors (\<open>SendResponse_APIErr\<close>,
  \<open>SendXMLResponse_APIErr\<close>) and fails for the others: the branch for an error that is
  not a catalog entry logs it and sends the InternalError document, but never sets the
  status, which the branch for catalog errors does. On a response that is still at its
  initial status the client gets the InternalError document with status 200, while the
  catalog gives InternalError the status 500. This is how \<^verbatim>\<open>GetActions\<close> answers a
  backend that returns neither an object nor an error.
\<close>

theorem internal_error_keeps_status_200:
  "status (resp (SendResponse sample_env (start (request [] [] [])) (Some (PlainErr ''boom'')))) = 200
   \<and> status (resp (SendXMLResponse sample_env (start (request [] [] [])) None
        (Some (PlainErr ''boom'')))) = 200
   \<and> rbody (resp (SendResponse sample_env (start (request [] [] [])) (Some (PlainErr ''boom''))))
       = GetAPIErrorResponse sample_env (GetAPIError sample_env ErrInternalError) [] [] []
   \<and> stderr (SendResponse sample_env (start (request [] [] [])) (Some (PlainErr ''boom'')))
       = [PlainErr ''boom'']
   \<and> HTTPStatusCode (GetAPIError sample_env ErrInternalError) = 500
   \<and> calls (GetActions sample_env sample_backend (request [] [] [])) = [be_GetObject ''b1'' ''k1'' []]
   \<and> stderr (GetActions sample_env sample_backend (request [] [] []))
       = [PlainErr ''get object nil response'']
   \<and> status (resp (GetActions sample_env sample_backend (request [] [] []))) = 200"
proof -
  let ?c = "request [] [] []"
  have s: "status (resp (start ?c)) = 200" "stderr (start ?c) = []"
    by (simp_all add: start_def request_def fresh_response_def)
  have g: "GetActions sample_env sample_backend ?c =
      SendResponse sample_env ((start ?c)\<lparr>calls := [be_GetObject ''b1'' ''k1'' []]\<rparr>)
        (Some (PlainErr ''get object nil response''))"
    unfolding GetActions_ladder sample_get_object
    by (simp add: read_request sample_backend_def write_body_def start_def)
  have i: "HTTPStatusCode (GetAPIError sample_env ErrInternalError) = 500"
    by (simp add: sample_env_def spec_GetAPIError_def spec_http_status_def)
  show ?thesis
    unfolding g SendResponse_plain SendXMLResponse_plain using s i by simp
qed

section \<open>Bodies that do not parse\<close>

text \<open>
  C4, as stated, fails: when the body does not decode, the three handlers do not send
  an InvalidRequest catalog error. They return the plain error \<^verbatim>\<open>wrong api call\<close> to
  the framework and write neither a status nor an error document. A DELETE of objects
  with an empty body leaves the response at status 200 with an empty body.
\<close>

theorem xml_parse_failure_counterexample:
  "Unmarshal sample_env Delete_target (Body (request [] [] [])) = Inl (PlainErr ''EOF'')
   \<and> ret (DeleteObjects sample_env sample_backend (request [] [] []))
       = Returned (PlainErr ''wrong api call'')
   \<and> status (resp (DeleteObjects sample_env sample_backend (request [] [] []))) = 200
   \<and> rbody (resp (DeleteObjects sample_env sample_backend (request [] [] []))) = []
   \<and> HTTPStatusCode (GetAPIError sample_env ErrInvalidRequest) = 400
   \<and> DeleteObjects sample_env sample_backend (request [] [] [])
       \<noteq> catalog_response sample_env ErrInvalidRequest (request [] [] [])"
proof -
  let ?c = "request [] [] []"
  have u: "Unmarshal sample_env Delete_target (Body ?c) = Inl (PlainErr ''EOF'')"
    by (simp add: sample_env_def Body_def request_def)
  have d: "DeleteObjects sample_env sample_backend ?c = refused ?c"
    by (simp add: DeleteObjects_def u refused_start)
  let ?r = "refused ?c :: string outcome"
  have s: "status (resp ?r) = 200" "rbody (resp ?r) = []"
    "ret ?r = Returned (PlainErr ''wrong api call'')"
    by (simp_all add: refused_def request_def fresh_response_def)
  have i: "HTTPStatusCode (GetAPIError sample_env ErrInvalidRequest) = 400"
    by (simp add: sample_env_def spec_GetAPIError_def spec_http_status_def)
  have t: "status (resp (catalog_response sample_env ErrInvalidRequest ?c)) = 400"
    by (simp add: catalog_response_def i)
  have n: "refused ?c \<noteq> catalog_response sample_env ErrInvalidRequest ?c"
  proof
    assume "refused ?c = catalog_response sample_env ErrInvalidRequest ?c"
    then have "status (resp ?r)
        = status (resp (catalog_response sample_env ErrInvalidRequest ?c))"
      by simp
    with s(1) t show False by simp
  qed
  show ?thesis
    unfolding d using u s i n by simp
qed

text \<open>
  C4, amended. For every operation that parses an inbound XML body (DeleteObjects, POST
  with \<^verbatim>\<open>restore\<close>, POST with a non-empty uploadId and without \<^verbatim>\<open>restore\<close>): if the
  body fails to parse, the handler returns the plain error \<^verbatim>\<open>wrong api call\<close> to the
  framework, leaves the response as it found it, and calls no backend operation.
\<close>

theorem xml_parse_failure_is_refused:
  "(Unmarshal env Delete_target (Body c) = Inl e \<longrightarrow> DeleteObjects env be c = refused c)
   \<and> (Has c ''restore'' \<and> Unmarshal env RestoreObjectInput_target (Body c) = Inl e \<longrightarrow>
        CreateActions env be c = refused c)
   \<and> (\<not> Has c ''restore'' \<and> Query c ''uploadId'' \<noteq> []
        \<and> Unmarshal env Parts_target (Body c) = Inl e \<longrightarrow>
        CreateActions env be c = refused c)"
  by (simp add: DeleteObjects_def CreateActions_def Let_def refused_start)

theorem xml_parse_failure_is_refused_witness:
  "Unmarshal sample_env Delete_target (Body (request [] [] [])) = Inl (PlainErr ''EOF'')
   \<and> DeleteObjects sample_env sample_backend (request [] [] []) = refused (request [] [] [])
   \<and> Has (request [(''restore'', [])] [] []) ''restore''
   \<and> CreateActions sample_env sample_backend (request [(''restore'', [])] [] [])
       = refused (request [(''restore'', [])] [] [])
   \<and> \<not> Has (request [(''uploadId'', ''U'')] [] []) ''restore''
   \<and> CreateActions sample_env sample_backend (request [(''uploadId'', ''U'')] [] [])
       = refused (request [(''uploadId'', ''U'')] [] [])
   \<and> calls (refused (request [(''uploadId'', ''U'')] [] []) :: string outcome) = []
   \<and> resp (refused (request [(''uploadId'', ''U'')] [] []) :: string outcome) = fresh_response"
proof -
  have u: "Unmarshal sample_env t (Body (request q [] [])) = Inl (PlainErr ''EOF'')" for t q
    by (simp add: sample_env_def Body_def request_def)
  have h: "Has (request [(''restore'', [])] [] []) ''restore''"
    "\<not> Has (request [(''uploadId'', ''U'')] [] []) ''restore''"
    "Query (request [(''uploadId'', ''U'')] [] []) ''uploadId'' \<noteq> []"
    by (simp_all add: read_request)
  note t = xml_parse_failure_is_refused [of sample_env _ "PlainErr ''EOF''" sample_backend]
  from t [of "request [] [] []"] u
  have 1: "DeleteObjects sample_env sample_backend (request [] [] []) = refused (request [] [] [])"
    by simp
  from t [of "request [(''restore'', [])] [] []"] u h
  have 2: "CreateActions sample_env sample_backend (request [(''restore'', [])] [] [])
      = refused (request [(''restore'', [])] [] [])"
    by simp
  from t [of "request [(''uploadId'', ''U'')] [] []"] u h
  have 3: "CreateActions sample_env sample_backend (request [(''uploadId'', ''U'')] [] [])
      = refused (request [(''uploadId'', ''U'')] [] [])"
    by simp
  show ?thesis
    using 1 2 3 u h by (simp add: refused_def request_def)
qed

section \<open>Listing the parts of an upload\<close>

text \<open>
  C5, as stated, fails: the handler tests the value against the empty string, so a
  \<^verbatim>\<open>max-parts\<close> argument that is present with an empty value, which does not parse as a
  positive integer, is not answered with InvalidMaxParts: ListObjectParts is called with
  0 for it.
\<close>

theorem list_parts_counterexample:
  "Has (request [(''uploadId'', ''U''), (''max-parts'', [])] [] []) ''max-parts''
   \<and> Atoi (Query (request [(''uploadId'', ''U''), (''max-parts'', [])] [] []) ''max-parts'') = None
   \<and> calls (GetActions sample_env sample_backend
       (request [(''uploadId'', ''U''), (''max-parts'', [])] [] []))
     = [be_ListObjectParts ''b1'' ''k1'' ''U'' 0 0]
   \<and> GetActions sample_env sample_backend
       (request [(''uploadId'', ''U''), (''max-parts'', [])] [] [])
     \<noteq> catalog_response sample_env ErrInvalidMaxParts
         (request [(''uploadId'', ''U''), (''max-parts'', [])] [] [])"
proof -
  let ?c = "request [(''uploadId'', ''U''), (''max-parts'', [])] [] []"
  have q: "Query ?c ''uploadId'' = ''U''" "Query ?c ''max-parts'' = []"
    "Query ?c ''part-number-marker'' = []" "Has ?c ''max-parts''"
    by (simp_all add: read_request)
  have op: "list_parts_call ?c = be_ListObjectParts ''b1'' ''k1'' ''U'' 0 0"
    unfolding list_parts_call_def QueryInt_def q Atoi_empty
    by (simp add: joined_key_def request_def Params_def lookup_default_def)
  have c: "calls (GetActions sample_env sample_backend ?c) = [be_ListObjectParts ''b1'' ''k1'' ''U'' 0 0]"
    unfolding GetActions_ladder q op
    by (simp add: invalid_count_def calls_SendXMLResponse)
  then have "calls (GetActions sample_env sample_backend ?c)
      \<noteq> calls (catalog_response sample_env ErrInvalidMaxParts ?c)"
    by (simp add: calls_catalog_response)
  then have n: "GetActions sample_env sample_backend ?c
      \<noteq> catalog_response sample_env ErrInvalidMaxParts ?c"
    by auto
  show ?thesis
    using c n q by (simp add: Atoi_empty)
qed

text \<open>
  C5, amended. For every GET on an object with a non-empty uploadId: if \<^verbatim>\<open>max-parts\<close>
  is non-empty and does not parse as a positive integer, the response is the
  InvalidMaxParts catalog error and no backend operation is called; otherwise, if
  \<^verbatim>\<open>part-number-marker\<close> is non-empty and does not parse as a positive integer, the
  response is the InvalidPartNumberMarker catalog error and no backend operation is
  called; otherwise exactly ListObjectParts is invoked, with the bucket, the key, the
  uploadId, the part-number marker and the maximum, where a parameter that is absent or
  empty counts as 0.
\<close>

theorem list_parts_dispatch:
  assumes "Query c ''uploadId'' \<noteq> []"
  shows "(invalid_count (Query c ''max-parts'') \<longrightarrow>
            GetActions env be c = catalog_response env ErrInvalidMaxParts c
            \<and> calls (GetActions env be c) = [])
       \<and> (\<not> invalid_count (Query c ''max-parts'')
            \<and> invalid_count (Query c ''part-number-marker'') \<longrightarrow>
            GetActions env be c = catalog_response env ErrInvalidPartNumberMarker c
            \<and> calls (GetActions env be c) = [])
       \<and> (\<not> invalid_count (Query c ''max-parts'')
            \<and> \<not> invalid_count (Query c ''part-number-marker'') \<longrightarrow>
            calls (GetActions env be c) =
              [be_ListObjectParts (Params c ''bucket'') (joined_key c) (Query c ''uploadId'')
                 (QueryInt c ''part-number-marker'' 0) (QueryInt c ''max-parts'' 0)])
       \<and> (Query c ''max-parts'' = [] \<longrightarrow> QueryInt c ''max-parts'' 0 = 0)
       \<and> (Query c ''part-number-marker'' = [] \<longrightarrow> QueryInt c ''part-number-marker'' 0 = 0)"
  using assms
  by (simp add: GetActions_ladder calls_catalog_response calls_SendXMLResponse
      list_parts_call_def QueryInt_def Atoi_empty)

theorem list_parts_dispatch_witness:
  "Query (request [(''uploadId'', ''U''), (''max-parts'', ''-1'')] [] []) ''uploadId'' \<noteq> []
   \<and> invalid_count (Query (request [(''uploadId'', ''U''), (''max-parts'', ''-1'')] [] []) ''max-parts'')
   \<and> GetActions sample_env sample_backend (request [(''uploadId'', ''U''), (''max-parts'', ''-1'')] [] [])
       = catalog_response sample_env ErrInvalidMaxParts
           (request [(''uploadId'', ''U''), (''max-parts'', ''-1'')] [] [])
   \<and> GetActions sample_env sample_backend
       (request [(''uploadId'', ''U''), (''part-number-marker'', ''x'')] [] [])
       = catalog_response sample_env ErrInvalidPartNumberMarker
           (request [(''uploadId'', ''U''), (''part-number-marker'', ''x'')] [] [])
   \<and> calls (GetActions sample_env sample_backend
       (request [(''uploadId'', ''U''), (''max-parts'', ''7'')] [] []))
       = [be_ListObjectParts ''b1'' ''k1'' ''U'' 0 7]"
proof -
  let ?c = "request [(''uploadId'', ''U''), (''max-parts'', ''-1'')] [] []"
  let ?d = "request [(''uploadId'', ''U''), (''part-number-marker'', ''x'')] [] []"
  let ?e = "request [(''uploadId'', ''U''), (''max-parts'', ''7'')] [] []"
  have u: "Query ?c ''uploadId'' \<noteq> []" "Query ?d ''uploadId'' \<noteq> []" "Query ?e ''uploadId'' \<noteq> []"
    by (simp_all add: read_request)
  have c: "invalid_count (Query ?c ''max-parts'')"
    by (simp add: invalid_count_def read_request read_number)
  have d: "\<not> invalid_count (Query ?d ''max-parts'')" "invalid_count (Query ?d ''part-number-marker'')"
    by (simp_all add: invalid_count_def read_request read_number)
  have e: "\<not> invalid_count (Query ?e ''max-parts'')" "\<not> invalid_count (Query ?e ''part-number-marker'')"
    "QueryInt ?e ''max-parts'' 0 = 7" "QueryInt ?e ''part-number-marker'' 0 = 0"
    "Query ?e ''uploadId'' = ''U''" "joined_key ?e = ''k1''"
    by (simp_all add: invalid_count_def joined_key_def read_request read_number)
  from list_parts_dispatch [OF u(1), of sample_env sample_backend] c
  have 1: "GetActions sample_env sample_backend ?c = catalog_response sample_env ErrInvalidMaxParts ?c"
    by simp
  from list_parts_dispatch [OF u(2), of sample_env sample_backend] d
  have 2: "GetActions sample_env sample_backend ?d
      = catalog_response sample_env ErrInvalidPartNumberMarker ?d"
    by simp
  from list_parts_dispatch [OF u(3), of sample_env sample_backend] e
  have 3: "calls (GetActions sample_env sample_backend ?e) = [be_ListObjectParts ''b1'' ''k1'' ''U'' 0 7]"
    by (simp add: request_bucket)
  show ?thesis using 1 2 3 u c by simp
qed

section \<open>The trailing slash\<close>

lemma slashed_key_ends_with_slash:
  "ends_with_slash (Path c) \<Longrightarrow> ends_with_slash (slashed_key c)"
  by (simp add: slashed_key_def ends_with_slash_def)

lemma DeleteActions_ladder:
  "DeleteActions env be c =
     (if Query c ''uploadId'' \<noteq> [] then
        SendResponse env
          ((start c)\<lparr>calls := [be_AbortMultipartUpload (Query c ''uploadId'') (Params c ''bucket'')
             (joined_key c) (Get c ''X-Amz-Expected-Bucket-Owner'') (Get c ''X-Amz-Request-Payer'')]\<rparr>)
          (err (be (be_AbortMultipartUpload (Query c ''uploadId'') (Params c ''bucket'')
             (joined_key c) (Get c ''X-Amz-Expected-Bucket-Owner'') (Get c ''X-Amz-Request-Payer''))))
      else
        SendResponse env ((start c)\<lparr>calls := [be_DeleteObject (Params c ''bucket'') (joined_key c)]\<rparr>)
          (err (be (be_DeleteObject (Params c ''bucket'') (joined_key c)))))"
  unfolding DeleteActions_def Let_def key_join invoke_start
  by (simp add: case_prod_beta split del: if_split cong: if_cong)

lemma CreateActions_ladder:
  "CreateActions env be c =
     (if Has c ''restore'' then
        (case Unmarshal env RestoreObjectInput_target (Body c) of
           Inl xmlErr \<Rightarrow> refused c
         | Inr restoreRequest \<Rightarrow>
             SendResponse env
               ((start c)\<lparr>calls := [be_RestoreObject (Params c ''bucket'') (joined_key c)
                  restoreRequest]\<rparr>)
               (err (be (be_RestoreObject (Params c ''bucket'') (joined_key c) restoreRequest))))
      else if Query c ''uploadId'' \<noteq> [] then
        (case Unmarshal env Parts_target (Body c) of
           Inl xmlErr \<Rightarrow> refused c
         | Inr parts \<Rightarrow>
             SendXMLResponse env
               ((start c)\<lparr>calls := [be_CompleteMultipartUpload (Params c ''bucket'') (joined_key c)
                  (Query c ''uploadId'') parts]\<rparr>)
               (res (be (be_CompleteMultipartUpload (Params c ''bucket'') (joined_key c)
                  (Query c ''uploadId'') parts)))
               (err (be (be_CompleteMultipartUpload (Params c ''bucket'') (joined_key c)
                  (Query c ''uploadId'') parts))))
      else
        SendXMLResponse env
          ((start c)\<lparr>calls := [be_CreateMultipartUpload (Params c ''bucket'') (joined_key c)]\<rparr>)
          (res (be (be_CreateMultipartUpload (Params c ''bucket'') (joined_key c))))
          (err (be (be_CreateMultipartUpload (Params c ''bucket'') (joined_key c)))))"
  unfolding CreateActions_def Let_def key_join invoke_start refused_start
  by (simp add: case_prod_beta split del: if_split cong: if_cong sum.case_cong)

lemma HeadObject_ladder:
  "HeadObject env be c =
     (if err (be (head_object_call c)) \<noteq> None then
        SendResponse env ((start c)\<lparr>calls := [head_object_call c]\<rparr>) (err (be (head_object_call c)))
      else (case object (be (head_object_call c)) of
              None \<Rightarrow>
                SendResponse env ((start c)\<lparr>calls := [head_object_call c]\<rparr>)
                  (Some (PlainErr ''head object nil response''))
            | Some out \<Rightarrow>
                SendResponse env
                  (object_headers ((start c)\<lparr>calls := [head_object_call c]\<rparr>) out) None))"
  unfolding HeadObject_def Let_def key_join invoke_start head_object_call_def
  by (simp add: case_prod_beta split del: if_split cong: if_cong option.case_cong)

lemma dir_request_reads:
  "Params dir_request ''bucket'' = ''b1''" "joined_key dir_request = ''dir''"
  "slashed_key dir_request = ''dir/''" "routed dir_request" "Query dir_request k = []"
  "Get dir_request h = []" "\<not> Has dir_request k" "Body dir_request = []"
  "Path dir_request = ''/b1/dir/''" "ctx_headers dir_request = []"
  by (simp_all add: dir_request_def Params_def Query_def Get_def header_value_def Has_def
      Body_def Path_def
      lookup_default_def joined_key_def slashed_key_def ends_with_slash_def routed_def)

text \<open>For the path \<^verbatim>\<open>/b1/dir/\<close> the PUT handler hands the key \<^verbatim>\<open>dir/\<close> to the
  backend.\<close>

lemma put_keeps_trailing_slash:
  "calls (PutActions sample_env sample_backend dir_request) = [be_PutObject ''b1'' ''dir/'' 0 [] []]"
proof -
  have cl: "content_length dir_request = Some 0"
    by (simp add: content_length_def dir_request_reads)
  show ?thesis
    unfolding PutActions_routed [OF dir_request_reads(4)] cl put_object_call_def grants_def
      dir_request_reads
    by (simp add: calls_SendResponse calls_Set GetUserMetaData_def)
qed

text \<open>
  C6. The claim holds for PUT (\<open>slashed_key_ends_with_slash\<close>,
  \<open>put_keeps_trailing_slash\<close>) and fails for the other object-scope handlers: only
  \<^verbatim>\<open>PutActions\<close> applies the trailing-slash rule. For the path \<^verbatim>\<open>/b1/dir/\<close> (route
  parameters \<^verbatim>\<open>bucket = b1\<close>, \<^verbatim>\<open>key = dir\<close>, empty wildcard) GET, HEAD, DELETE and POST
  hand the key \<^verbatim>\<open>dir\<close> to the backend, which does not end with a slash.
\<close>

theorem trailing_slash_is_lost_outside_put:
  "ends_with_slash (Path dir_request)
   \<and> calls (GetActions sample_env sample_backend dir_request) = [be_GetObject ''b1'' ''dir'' []]
   \<and> calls (HeadObject sample_env sample_backend dir_request) = [be_HeadObject ''b1'' ''dir'']
   \<and> calls (DeleteActions sample_env sample_backend dir_request) = [be_DeleteObject ''b1'' ''dir'']
   \<and> calls (CreateActions sample_env sample_backend dir_request)
       = [be_CreateMultipartUpload ''b1'' ''dir'']
   \<and> \<not> ends_with_slash ''dir''"
proof -
  have g: "calls (GetActions sample_env sample_backend dir_request) = [be_GetObject ''b1'' ''dir'' []]"
    unfolding GetActions_ladder get_object_call_def dir_request_reads
    by (simp add: dir_request_reads calls_SendResponse write_body_def sample_backend_def)
  have h: "calls (HeadObject sample_env sample_backend dir_request) = [be_HeadObject ''b1'' ''dir'']"
    unfolding HeadObject_ladder head_object_call_def dir_request_reads
    by (simp add: calls_SendResponse sample_backend_def)
  have d: "calls (DeleteActions sample_env sample_backend dir_request) = [be_DeleteObject ''b1'' ''dir'']"
    unfolding DeleteActions_ladder dir_request_reads
    by (simp add: calls_SendResponse)
  have c: "calls (CreateActions sample_env sample_backend dir_request)
      = [be_CreateMultipartUpload ''b1'' ''dir'']"
    unfolding CreateActions_ladder dir_request_reads
    by (simp add: dir_request_reads calls_SendXMLResponse)
  have e: "ends_with_slash (Path dir_request)" "\<not> ends_with_slash ''dir''"
    by (simp_all add: ends_with_slash_def dir_request_reads)
  show ?thesis using g h d c e by simp
qed

section \<open>The Last-Modified header\<close>

text \<open>The layout of the controller is the RFC 1123 shape with the literal zone
  \<^verbatim>\<open>GMT\<close>, filled with the wall clock of the time's own location.\<close>

lemma format_chunks_skip:
  "format_chunks w 1 (a # cs) = format_chunks w 0 cs"
  "format_chunks w 2 (a # b # cs) = format_chunks w 0 cs"
  "format_chunks w 3 (a # b # d # cs) = format_chunks w 0 cs"
  by (simp_all add: eval_nat_numeral)

lemma Format_timefmt: "Format t timefmt = http_date (sec t + offset t)"
  by (simp add: Format_def timefmt_def http_date_def format_chunks_skip)

lemma Format_timefmt_UTC: "offset t = 0 \<Longrightarrow> Format t timefmt = http_date (sec t)"
  by (simp add: Format_timefmt)

lemma Peek_object_headers:
  "Peek (resp (object_headers st out)) ''Last-Modified'' =
     Some (case LastModified out of None \<Rightarrow> [] | Some t \<Rightarrow> http_date (sec t + offset t))"
  by (cases "LastModified out")
    (simp_all add: object_headers_def SetResponseHeaders_def Let_def Peek_Set Format_timefmt)

lemma calls_fold_Set: "calls (fold (\<lambda>(k, v) s. Set s (f k) v) xs st) = calls st"
  by (induction xs arbitrary: st) (auto simp: calls_Set)

lemma calls_object_headers: "calls (object_headers st out) = calls st"
  by (simp add: object_headers_def SetResponseHeaders_def SetMetaHeaders_def Let_def calls_Set
      calls_fold_Set)

lemma Peek_SendStatus_OK: "Peek (resp (SendStatus_OK st)) k = Peek (resp st) k"
  by (simp add: SendStatus_OK_def Let_def Peek_def Status_def Send_def)

lemma Peek_SendResponse: "Peek (resp (SendResponse env st e)) k = Peek (resp st) k"
  by (simp add: Peek_def header_SendResponse)

lemma GetActions_object:
  assumes "Query c ''uploadId'' = []" and "\<not> Has c ''acl''"
    and "Get c ''X-Amz-Object-Attributes'' = []"
    and "err (be (be_GetObject (Params c ''bucket'') (joined_key c) (Get c ''Range''))) = None"
    and "object (be (be_GetObject (Params c ''bucket'') (joined_key c) (Get c ''Range''))) = Some out"
  shows "Peek (resp (GetActions env be c)) ''Last-Modified'' =
     Some (case LastModified out of None \<Rightarrow> [] | Some t \<Rightarrow> http_date (sec t + offset t))"
proof -
  from assms have "GetActions env be c =
      SendStatus_OK (object_headers
        (write_body ((start c)\<lparr>calls := [get_object_call c]\<rparr>) (written (be (get_object_call c))))
        out)"
    by (simp add: GetActions_ladder get_object_call_def)
  then show ?thesis
    by (simp add: Peek_SendStatus_OK Peek_object_headers)
qed

lemma HeadObject_object:
  assumes "err (be (be_HeadObject (Params c ''bucket'') (joined_key c))) = None"
    and "object (be (be_HeadObject (Params c ''bucket'') (joined_key c))) = Some out"
  shows "Peek (resp (HeadObject env be c)) ''Last-Modified'' =
     Some (case LastModified out of None \<Rightarrow> [] | Some t \<Rightarrow> http_date (sec t + offset t))"
proof -
  from assms have "HeadObject env be c =
      SendResponse env (object_headers ((start c)\<lparr>calls := [head_object_call c]\<rparr>) out) None"
    by (simp add: HeadObject_ladder head_object_call_def)
  then show ?thesis
    by (simp add: Peek_SendResponse Peek_object_headers)
qed

lemmas read_date =
  http_date_def weekday_def day_def month_def year_def hour_def minute_def second_def
  month_index_def day_of_year_def year_of_era_def day_of_era_def day_number_def
  day_names_def month_names_def zero_pad_def digit_char_def

lemma reference_date: "http_date 1136214245 = ''Mon, 02 Jan 2006 15:04:05 GMT''"
  by (simp add: read_date)

lemma reference_date_later: "http_date (1136214245 + 7200) = ''Mon, 02 Jan 2006 17:04:05 GMT''"
  by (simp add: read_date)

lemma sample_object_reads:
  "Query (request [] [] []) ''uploadId'' = []" "\<not> Has (request [] [] []) ''acl''"
  "Get (request [] [] []) ''X-Amz-Object-Attributes'' = []"
  "Params (request [] [] []) ''bucket'' = ''b1''" "joined_key (request [] [] []) = ''k1''"
  "Get (request [] [] []) ''Range'' = []"
  by (simp_all add: joined_key_def read_request)

lemma object_backend_reply:
  "object (object_backend t op) = Some (sample_object\<lparr>LastModified := t\<rparr>)"
  "err (object_backend t op) = None"
  by (simp_all add: object_backend_def)

text \<open>
  C8, as stated, fails in two ways. When the backend gives no modification time, the
  handlers pass the empty string for \<^verbatim>\<open>Last-Modified\<close> to the header helper, which
  writes it: the header is present with an empty value, not absent. And the time is
  formatted in its own location, with \<^verbatim>\<open>GMT\<close> as literal text: the instant
  15:04:05 GMT of 2 January 2006, held as a time two hours east of UTC, is written as
  17:04:05 GMT.
\<close>

theorem last_modified_counterexample:
  "object (object_backend None (be_HeadObject ''b1'' ''k1''))
     = Some (sample_object\<lparr>LastModified := None\<rparr>)
   \<and> err (object_backend None (be_HeadObject ''b1'' ''k1'')) = None
   \<and> Peek (resp (HeadObject sample_env (object_backend None) (request [] [] []))) ''Last-Modified''
       = Some []
   \<and> Peek (resp (GetActions sample_env (object_backend None) (request [] [] []))) ''Last-Modified''
       = Some []
   \<and> http_date 1136214245 = ''Mon, 02 Jan 2006 15:04:05 GMT''
   \<and> Peek (resp (HeadObject sample_env
        (object_backend (Some \<lparr>sec = 1136214245, offset = 7200\<rparr>)) (request [] [] [])))
        ''Last-Modified'' = Some ''Mon, 02 Jan 2006 17:04:05 GMT''"
proof -
  let ?c = "request [] [] []"
  let ?t = "\<lparr>sec = 1136214245, offset = 7200\<rparr>"
  have 1: "Peek (resp (HeadObject sample_env (object_backend None) ?c)) ''Last-Modified'' = Some []"
    by (simp add: HeadObject_object [where out = "sample_object\<lparr>LastModified := None\<rparr>"]
        object_backend_reply)
  have 2: "Peek (resp (GetActions sample_env (object_backend None) ?c)) ''Last-Modified'' = Some []"
    by (simp add: GetActions_object [where out = "sample_object\<lparr>LastModified := None\<rparr>"]
        object_backend_reply sample_object_reads)
  have 3: "Peek (resp (HeadObject sample_env (object_backend (Some ?t)) ?c)) ''Last-Modified''
      = Some ''Mon, 02 Jan 2006 17:04:05 GMT''"
    using reference_date_later
    by (simp add: HeadObject_object [where out = "sample_object\<lparr>LastModified := Some ?t\<rparr>"]
        object_backend_reply)
  show ?thesis
    using 1 2 3 reference_date by (simp add: object_backend_reply)
qed

text \<open>
  C8, amended. For every successful GetObject and HeadObject response: when the backend
  provides a timestamp that is in UTC, the \<^verbatim>\<open>Last-Modified\<close> response header is that
  instant formatted exactly as \<^verbatim>\<open>Mon, 02 Jan 2006 15:04:05 GMT\<close> (RFC 1123 in GMT);
  when the backend's LastModified field is nil, the header is present with an empty
  value.
\<close>

theorem last_modified_header:
  "(Query c ''uploadId'' = [] \<and> \<not> Has c ''acl'' \<and> Get c ''X-Amz-Object-Attributes'' = []
      \<and> err (be (be_GetObject (Params c ''bucket'') (joined_key c) (Get c ''Range''))) = None
      \<and> object (be (be_GetObject (Params c ''bucket'') (joined_key c) (Get c ''Range''))) = Some out
    \<longrightarrow>
      (LastModified out = Some t \<and> offset t = 0 \<longrightarrow>
         Peek (resp (GetActions env be c)) ''Last-Modified'' = Some (http_date (sec t)))
      \<and> (LastModified out = None \<longrightarrow>
         Peek (resp (GetActions env be c)) ''Last-Modified'' = Some []))
   \<and> (err (be (be_HeadObject (Params c ''bucket'') (joined_key c))) = None
      \<and> object (be (be_HeadObject (Params c ''bucket'') (joined_key c))) = Some out
    \<longrightarrow>
      (LastModified out = Some t \<and> offset t = 0 \<longrightarrow>
         Peek (resp (HeadObject env be c)) ''Last-Modified'' = Some (http_date (sec t)))
      \<and> (LastModified out = None \<longrightarrow>
         Peek (resp (HeadObject env be c)) ''Last-Modified'' = Some []))"
  by (simp add: GetActions_object HeadObject_object)

theorem last_modified_header_witness:
  "Query (request [] [] []) ''uploadId'' = [] \<and> \<not> Has (request [] [] []) ''acl''
   \<and> Get (request [] [] []) ''X-Amz-Object-Attributes'' = []
   \<and> err (object_backend (Some \<lparr>sec = 1136214245, offset = 0\<rparr>) (be_GetObject ''b1'' ''k1'' []))
       = None
   \<and> object (object_backend (Some \<lparr>sec = 1136214245, offset = 0\<rparr>) (be_GetObject ''b1'' ''k1'' []))
       = Some (sample_object\<lparr>LastModified := Some \<lparr>sec = 1136214245, offset = 0\<rparr>\<rparr>)
   \<and> Peek (resp (GetActions sample_env (object_backend (Some \<lparr>sec = 1136214245, offset = 0\<rparr>))
        (request [] [] []))) ''Last-Modified'' = Some ''Mon, 02 Jan 2006 15:04:05 GMT''
   \<and> Peek (resp (HeadObject sample_env (object_backend (Some \<lparr>sec = 1136214245, offset = 0\<rparr>))
        (request [] [] []))) ''Last-Modified'' = Some ''Mon, 02 Jan 2006 15:04:05 GMT''
   \<and> Peek (resp (HeadObject sample_env (object_backend None) (request [] [] []))) ''Last-Modified''
       = Some []"
proof -
  let ?c = "request [] [] []"
  let ?t = "\<lparr>sec = 1136214245, offset = 0\<rparr>"
  note r = sample_object_reads object_backend_reply
  from last_modified_header [of ?c "object_backend (Some ?t)"
      "sample_object\<lparr>LastModified := Some ?t\<rparr>" ?t sample_env]
  have 1: "Peek (resp (GetActions sample_env (object_backend (Some ?t)) ?c)) ''Last-Modified''
      = Some ''Mon, 02 Jan 2006 15:04:05 GMT''"
    and 2: "Peek (resp (HeadObject sample_env (object_backend (Some ?t)) ?c)) ''Last-Modified''
      = Some ''Mon, 02 Jan 2006 15:04:05 GMT''"
    by (simp_all add: r reference_date)
  from last_modified_header [of ?c "object_backend None" "sample_object\<lparr>LastModified := None\<rparr>"
      _ sample_env]
  have 3: "Peek (resp (HeadObject sample_env (object_backend None) ?c)) ''Last-Modified'' = Some []"
    by (simp add: r)
  show ?thesis using 1 2 3 by (simp add: r)
qed

section \<open>An uploadId without a value\<close>

lemma map_of_filter_other:
  "k' \<noteq> k \<Longrightarrow> map_of (filter (\<lambda>(n, v). n \<noteq> k) q) k' = map_of q k'"
  by (induction q) auto

lemma map_of_filter_same: "map_of (filter (\<lambda>(n, v). n \<noteq> k) q) k = None"
  by (induction q) auto

lemma header_value_without_query: "header_value (without_query k c) = header_value c"
  by (simp add: header_value_def without_query_def fun_eq_iff)

lemma without_query_reads:
  "Params (without_query k c) = Params c"
  "Path (without_query k c) = Path c"
  "Body (without_query k c) = Body c"
  "Get (without_query k c) = Get c"
  "ctx_headers (without_query k c) = ctx_headers c"
  "Query (without_query k c) k = []"
  by (simp_all add: without_query_def Params_def Path_def Body_def Get_def
      header_value_without_query [unfolded without_query_def] Query_def
      lookup_default_def map_of_filter_same fun_eq_iff)

lemma start_without_query: "start (without_query k c) = start c"
  by (simp add: start_def without_query_def)

lemma Query_without_query: "k' \<noteq> k \<Longrightarrow> Query (without_query k c) k' = Query c k'"
  by (simp add: without_query_def Query_def lookup_default_def map_of_filter_other)

lemma Has_without_query: "k' \<noteq> k \<Longrightarrow> Has (without_query k c) k' = Has c k'"
  by (force simp: without_query_def Has_def image_iff)

lemma derived_without_query:
  "joined_key (without_query k c) = joined_key c"
  "get_object_call (without_query k c) = get_object_call c"
  "refused (without_query k c) = refused c"
  by (simp_all add: joined_key_def get_object_call_def refused_def without_query_reads)
    (simp add: without_query_def)

lemma calls_SendStatus_OK: "calls (SendStatus_OK st) = calls st"
  by (simp add: SendStatus_OK_def Let_def Status_def Send_def)

lemma calls_write_body: "calls (write_body st w) = calls st"
  by (simp add: write_body_def)


lemma PutActions_no_uploadId:
  assumes "Query c ''uploadId'' = []" and "Query d ''uploadId'' = []"
    and "Params d = Params c" and "Path d = Path c" and "Body d = Body c" and "Get d = Get c"
    and "ctx_headers d = ctx_headers c" and "start d = (start c :: 'x outcome)"
  shows "PutActions env be d = (PutActions env be c :: 'x outcome)"
  unfolding PutActions_def Let_def assms by (simp only: simp_thms if_False)

lemma PutActions_no_part:
  assumes "Query c ''uploadId'' = []"
  shows "be_PutObjectPart a b u p n body \<notin> set (calls (PutActions env be c))"
proof (cases "Path c = [] \<or> (last (Path c) = CHR ''/'' \<and> joined_key c = [])")
  case True
  then have "PutActions env be c = (start c)\<lparr>ret := Panicked\<rparr>"
    unfolding PutActions_def Let_def key_join by (simp only: if_True)
  then show ?thesis by (simp add: start_def)
next
  case False
  have k: "(if last (Path c) = CHR ''/'' \<and> last (joined_key c) \<noteq> CHR ''/''
      then joined_key c @ ''/'' else joined_key c) = slashed_key c"
    using False by (auto simp: slashed_key_def ends_with_slash_def)
  have eq: "PutActions env be c =
    (case content_length c of
       None \<Rightarrow> catalog_response env ErrInvalidRequest c
     | Some n \<Rightarrow>
        if grants c \<noteq> [] \<or> Get c ''X-Amz-Acl'' \<noteq> [] then
          if grants c \<noteq> [] \<and> Get c ''X-Amz-Acl'' \<noteq> [] then refused c
          else SendResponse env ((start c)\<lparr>calls := [put_acl_call c]\<rparr>)
                 (err (be (put_acl_call c)))
        else if Get c ''X-Amz-Copy-Source'' \<noteq> [] then
          SendXMLResponse env ((start c)\<lparr>calls := [copy_call c]\<rparr>)
            (res (be (copy_call c))) (err (be (copy_call c)))
        else
          SendResponse env
            (Set ((start c)\<lparr>calls := [put_object_call c n]\<rparr>) ''ETag''
               (etag (be (put_object_call c n))))
            (err (be (put_object_call c n))))"
    unfolding PutActions_def Let_def key_join k content_length_case
      grants_def [symmetric] if_not_P [OF False] SendResponse_catalog invoke_start
      put_acl_call_def copy_call_def put_object_call_def refused_start assms
    by (simp add: case_prod_beta split del: if_split cong: if_cong option.case_cong)
  show ?thesis
  proof (cases "content_length c")
    case None
    then show ?thesis by (simp add: eq calls_catalog_response)
  next
    case (Some m)
    then show ?thesis
      by (simp add: eq calls_SendResponse calls_SendXMLResponse calls_Set refused_def
          put_acl_call_def copy_call_def put_object_call_def)
  qed
qed

text \<open>
  C10. A uploadId query parameter with an empty value is treated as absent: every
  object-scope handler behaves on the request as it does on the request without the
  parameter. So DELETE calls DeleteObject, POST without \<^verbatim>\<open>restore\<close> calls
  CreateMultipartUpload, PUT calls no PutObjectPart, and GET goes on to the rules for
  \<^verbatim>\<open>acl\<close>, object attributes and GetObject. The test for \<^verbatim>\<open>acl\<close> is one of
  presence: an \<^verbatim>\<open>acl\<close> argument selects GetObjectAcl whatever its value.
\<close>

theorem empty_uploadId_is_absent:
  assumes "Query c ''uploadId'' = []"
  shows "GetActions env be c = GetActions env be (without_query ''uploadId'' c)
       \<and> PutActions env be c = PutActions env be (without_query ''uploadId'' c)
       \<and> DeleteActions env be c = DeleteActions env be (without_query ''uploadId'' c)
       \<and> CreateActions env be c = CreateActions env be (without_query ''uploadId'' c)
       \<and> calls (DeleteActions env be c) = [be_DeleteObject (Params c ''bucket'') (joined_key c)]
       \<and> (\<not> Has c ''restore'' \<longrightarrow>
           calls (CreateActions env be c)
             = [be_CreateMultipartUpload (Params c ''bucket'') (joined_key c)])
       \<and> (\<forall>a b u p n body. be_PutObjectPart a b u p n body \<notin> set (calls (PutActions env be c)))
       \<and> (Has c ''acl'' \<longrightarrow>
           calls (GetActions env be c) = [be_GetObjectAcl (Params c ''bucket'') (joined_key c)])
       \<and> (\<not> Has c ''acl'' \<and> Get c ''X-Amz-Object-Attributes'' \<noteq> [] \<longrightarrow>
           calls (GetActions env be c)
             = [be_GetObjectAttributes (Params c ''bucket'') (joined_key c)
                  (Split (Get c ''X-Amz-Object-Attributes'') CHR '','')])
       \<and> (\<not> Has c ''acl'' \<and> Get c ''X-Amz-Object-Attributes'' = [] \<longrightarrow>
           calls (GetActions env be c)
             = [be_GetObject (Params c ''bucket'') (joined_key c) (Get c ''Range'')])"
proof (intro conjI)
  note w = without_query_reads derived_without_query start_without_query
  have h: "Has (without_query ''uploadId'' c) ''acl'' = Has c ''acl''"
    "Has (without_query ''uploadId'' c) ''restore'' = Has c ''restore''"
    by (simp_all add: Has_without_query)
  show "GetActions env be c = GetActions env be (without_query ''uploadId'' c)"
    unfolding GetActions_ladder w h assms by (simp only: simp_thms if_False)
  show "PutActions env be c = PutActions env be (without_query ''uploadId'' c)"
    by (rule PutActions_no_uploadId [symmetric]) (simp_all add: assms w)
  show "DeleteActions env be c = DeleteActions env be (without_query ''uploadId'' c)"
    unfolding DeleteActions_ladder w assms by (simp only: simp_thms if_False)
  show "CreateActions env be c = CreateActions env be (without_query ''uploadId'' c)"
    unfolding CreateActions_ladder w h assms by (simp only: simp_thms if_False)
  show "calls (DeleteActions env be c) = [be_DeleteObject (Params c ''bucket'') (joined_key c)]"
    unfolding DeleteActions_ladder assms by (simp add: calls_SendResponse)
  show "\<not> Has c ''restore'' \<longrightarrow>
      calls (CreateActions env be c) = [be_CreateMultipartUpload (Params c ''bucket'') (joined_key c)]"
    unfolding CreateActions_ladder assms by (simp add: calls_SendXMLResponse)
  show "\<forall>a b u p n body. be_PutObjectPart a b u p n body \<notin> set (calls (PutActions env be c))"
    using PutActions_no_part [OF assms] by blast
  show "Has c ''acl'' \<longrightarrow>
      calls (GetActions env be c) = [be_GetObjectAcl (Params c ''bucket'') (joined_key c)]"
    unfolding GetActions_ladder assms by (simp add: calls_SendXMLResponse)
  show "\<not> Has c ''acl'' \<and> Get c ''X-Amz-Object-Attributes'' \<noteq> [] \<longrightarrow>
      calls (GetActions env be c)
        = [be_GetObjectAttributes (Params c ''bucket'') (joined_key c)
             (Split (Get c ''X-Amz-Object-Attributes'') CHR '','')]"
    unfolding GetActions_ladder assms by (simp add: calls_SendXMLResponse)
  show "\<not> Has c ''acl'' \<and> Get c ''X-Amz-Object-Attributes'' = [] \<longrightarrow>
      calls (GetActions env be c)
        = [be_GetObject (Params c ''bucket'') (joined_key c) (Get c ''Range'')]"
    unfolding GetActions_ladder assms get_object_call_def
    by (simp add: calls_SendResponse calls_object_headers calls_write_body calls_SendStatus_OK
        split: option.splits)
qed

theorem empty_uploadId_is_absent_witness:
  "map_of (ctx_query (request [(''uploadId'', []), (''acl'', [])] [] [])) ''uploadId'' = Some []
   \<and> Query (request [(''uploadId'', []), (''acl'', [])] [] []) ''uploadId'' = []
   \<and> Query (request [(''uploadId'', []), (''acl'', [])] [] []) ''acl'' = []
   \<and> calls (GetActions sample_env sample_backend (request [(''uploadId'', []), (''acl'', [])] [] []))
       = [be_GetObjectAcl ''b1'' ''k1'']
   \<and> calls (DeleteActions sample_env sample_backend (request [(''uploadId'', [])] [] []))
       = [be_DeleteObject ''b1'' ''k1'']
   \<and> calls (CreateActions sample_env sample_backend (request [(''uploadId'', [])] [] []))
       = [be_CreateMultipartUpload ''b1'' ''k1'']
   \<and> calls (GetActions sample_env sample_backend (request [(''uploadId'', [])] [] []))
       = [be_GetObject ''b1'' ''k1'' []]
   \<and> PutActions sample_env sample_backend
        (request [(''uploadId'', []), (''partNumber'', ''3'')] [] ''abc'')
       = PutActions sample_env sample_backend
           (without_query ''uploadId'' (request [(''uploadId'', []), (''partNumber'', ''3'')] [] ''abc''))
   \<and> be_PutObjectPart ''b1'' ''k1'' [] 3 0 ''abc''
       \<notin> set (calls (PutActions sample_env sample_backend
            (request [(''uploadId'', []), (''partNumber'', ''3'')] [] ''abc'')))"
proof -
  let ?a = "request [(''uploadId'', []), (''acl'', [])] [] []"
  let ?u = "request [(''uploadId'', [])] [] []"
  let ?p = "request [(''uploadId'', []), (''partNumber'', ''3'')] [] ''abc''"
  have q: "Query ?a ''uploadId'' = []" "Query ?u ''uploadId'' = []" "Query ?p ''uploadId'' = []"
    "Query ?a ''acl'' = []" "map_of (ctx_query ?a) ''uploadId'' = Some []"
    by (simp_all add: read_request)
  have h: "Has ?a ''acl''" "\<not> Has ?u ''acl''" "\<not> Has ?u ''restore''"
    "Get ?u ''X-Amz-Object-Attributes'' = []" "Get ?u ''Range'' = []"
    by (simp_all add: read_request)
  have k: "joined_key (request qs hs b) = ''k1''" for qs hs b
    by (simp add: joined_key_def read_request)
  note t = empty_uploadId_is_absent [where env = sample_env and be = sample_backend]
  from t [OF q(1)] h(1)
  have "calls (GetActions sample_env sample_backend ?a)
      = [be_GetObjectAcl (Params ?a ''bucket'') (joined_key ?a)]"
    by blast
  then have 1: "calls (GetActions sample_env sample_backend ?a) = [be_GetObjectAcl ''b1'' ''k1'']"
    by (simp add: k request_bucket)
  from t [OF q(2)] h
  have "calls (DeleteActions sample_env sample_backend ?u)
      = [be_DeleteObject (Params ?u ''bucket'') (joined_key ?u)]"
    and "calls (CreateActions sample_env sample_backend ?u)
      = [be_CreateMultipartUpload (Params ?u ''bucket'') (joined_key ?u)]"
    and "calls (GetActions sample_env sample_backend ?u)
      = [be_GetObject (Params ?u ''bucket'') (joined_key ?u) (Get ?u ''Range'')]"
    by blast+
  then have 2: "calls (DeleteActions sample_env sample_backend ?u) = [be_DeleteObject ''b1'' ''k1'']"
    and 3: "calls (CreateActions sample_env sample_backend ?u) = [be_CreateMultipartUpload ''b1'' ''k1'']"
    and 4: "calls (GetActions sample_env sample_backend ?u) = [be_GetObject ''b1'' ''k1'' []]"
    by (simp_all add: k request_bucket h)
  from t [OF q(3)]
  have 5: "PutActions sample_env sample_backend ?p
      = PutActions sample_env sample_backend (without_query ''uploadId'' ?p)"
    and 6: "be_PutObjectPart ''b1'' ''k1'' [] 3 0 ''abc'' \<notin> set (calls (PutActions sample_env sample_backend ?p))"
    by blast+
  show ?thesis using 1 2 3 4 5 6 q by simp
qed

end
